theory Spec2Isabelle
  imports Main "HOL-Library.Word"
begin

section \<open>JavaScript values of the request and response bodies\<close>

text \<open>
  The handlers of \<^verbatim>\<open>index.js\<close> read the fields of a JSON request body and answer
  with a JSON object. A field the body does not have reads as \<open>Undefined\<close>. Numbers are
  the integers (the quantities of this service are months and activation counts), in
  the range where a JavaScript number holds an integer exactly and renders it by its
  decimal digits (below \<open>2 ^ 53\<close> in absolute value): there \<^verbatim>\<open>parseInt\<close>, \<^verbatim>\<open>String\<close> and
  a template literal are exact, as below. Fractions, larger numbers and arrays are not
  modelled.
\<close>

type_synonym date = int

datatype jsvalue =
    Undefined
  | Null
  | Bool bool
  | Num int
  | Str string
  | Obj "(string \<times> jsvalue) list"

text \<open>Truthiness, as \<^verbatim>\<open>!x\<close> and \<^verbatim>\<open>x || y\<close> read it.\<close>

fun truthy :: "jsvalue \<Rightarrow> bool" where
  "truthy Undefined = False"
| "truthy Null = False"
| "truthy (Bool b) = b"
| "truthy (Num n) = (n \<noteq> 0)"
| "truthy (Str s) = (s \<noteq> [])"
| "truthy (Obj fs) = True"

definition js_or :: "jsvalue \<Rightarrow> jsvalue \<Rightarrow> jsvalue" where
  "js_or x y = (if truthy x then x else y)"

text \<open>A destructuring default (\<^verbatim>\<open>{ maxActivations = 1 } = req.body\<close>) applies to
  \<open>Undefined\<close> only.\<close>

definition default_to :: "jsvalue \<Rightarrow> jsvalue \<Rightarrow> jsvalue" where
  "default_to d x = (case x of Undefined \<Rightarrow> d | _ \<Rightarrow> x)"

subsection \<open>Strings\<close>

text \<open>White space as \<^verbatim>\<open>String.prototype.trim\<close> strips it, within the Latin-1 range of
  \<^typ>\<open>char\<close>: tab, line feed, vertical tab, form feed, carriage return, space and the
  no-break space.\<close>

definition isWhiteSpace :: "char \<Rightarrow> bool" where
  "isWhiteSpace c = (of_char c \<in> {9, 10, 11, 12, 13, 32, 160 :: nat})"

definition trimStart :: "string \<Rightarrow> string" where
  "trimStart s = dropWhile isWhiteSpace s"

definition trim :: "string \<Rightarrow> string" where
  "trim s = rev (dropWhile isWhiteSpace (rev (dropWhile isWhiteSpace s)))"

definition toUpperCaseChar :: "char \<Rightarrow> char" where
  "toUpperCaseChar c =
     (case map_of (zip ''abcdefghijklmnopqrstuvwxyz'' ''ABCDEFGHIJKLMNOPQRSTUVWXYZ'') c of
        Some u \<Rightarrow> u
      | None \<Rightarrow> c)"

definition toUpperCase :: "string \<Rightarrow> string" where
  "toUpperCase s = map toUpperCaseChar s"

definition digitChar :: "nat \<Rightarrow> char" where
  "digitChar n = ''0123456789abcdef'' ! (n mod 16)"

text \<open>The decimal rendering of an integer, as a template literal or \<^verbatim>\<open>String(n)\<close>
  gives it.\<close>

fun show_nat :: "nat \<Rightarrow> string" where
  "show_nat n = (if n < 10 then [digitChar n] else show_nat (n div 10) @ [digitChar (n mod 10)])"

declare show_nat.simps [simp del]

definition show_int :: "int \<Rightarrow> string" where
  "show_int i = (if i < 0 then CHR ''-'' # show_nat (nat (- i)) else show_nat (nat i))"

subsection \<open>parseInt\<close>

text \<open>\<^verbatim>\<open>parseInt(x)\<close> with no radix: the argument as a string, leading white space
  dropped, an optional sign, an optional \<^verbatim>\<open>0x\<close> prefix that selects radix 16, then the
  longest run of digits of the radix. No digit gives NaN, here \<open>None\<close>. The string of a
  number is its decimal rendering, which \<^verbatim>\<open>parseInt\<close> reads back.\<close>

definition digitValue :: "char \<Rightarrow> nat option" where
  "digitValue c =
     (let n = of_char c :: nat in
      if 48 \<le> n \<and> n \<le> 57 then Some (n - 48)
      else if 97 \<le> n \<and> n \<le> 122 then Some (n - 87)
      else if 65 \<le> n \<and> n \<le> 90 then Some (n - 55)
      else None)"

definition isRadixDigit :: "nat \<Rightarrow> char \<Rightarrow> bool" where
  "isRadixDigit r c = (case digitValue c of None \<Rightarrow> False | Some v \<Rightarrow> v < r)"

definition digitsValue :: "nat \<Rightarrow> string \<Rightarrow> nat" where
  "digitsValue r ds =
     foldl (\<lambda>acc c. acc * r + (case digitValue c of None \<Rightarrow> 0 | Some v \<Rightarrow> v)) 0 ds"

definition parseDigits :: "nat \<Rightarrow> string \<Rightarrow> nat option" where
  "parseDigits r s =
     (let ds = takeWhile (isRadixDigit r) s in if ds = [] then None else Some (digitsValue r ds))"

definition parseIntString :: "string \<Rightarrow> int option" where
  "parseIntString s =
     (let s1 = trimStart s;
          neg = (case s1 of c # _ \<Rightarrow> c = CHR ''-'' | [] \<Rightarrow> False);
          s2 = (case s1 of c # r \<Rightarrow> if c = CHR ''-'' \<or> c = CHR ''+'' then r else s1 | [] \<Rightarrow> s1);
          hex = (take 2 s2 = ''0x'' \<or> take 2 s2 = ''0X'');
          m = (if hex then parseDigits 16 (drop 2 s2) else parseDigits 10 s2)
      in case m of None \<Rightarrow> None | Some v \<Rightarrow> Some (if neg then - int v else int v))"

fun parseInt :: "jsvalue \<Rightarrow> int option" where
  "parseInt (Num n) = Some n"
| "parseInt (Str s) = parseIntString s"
| "parseInt _ = None"

text \<open>\<^verbatim>\<open>parseInt(x) || d\<close>: NaN and 0 are falsy.\<close>

definition parseInt_or :: "jsvalue \<Rightarrow> int \<Rightarrow> int" where
  "parseInt_or x d = (case parseInt x of None \<Rightarrow> d | Some n \<Rightarrow> if n = 0 then d else n)"

section \<open>Data model\<close>

text \<open>
  \<^verbatim>\<open>licenseSchema\<close> and \<^verbatim>\<open>usageSchema\<close>. Dates are milliseconds since the epoch.
  The licenses collection has a unique index on \<^verbatim>\<open>licenseKey\<close>, so it is a map from the
  license key to the other paths of the document. The paths Mongoose keeps for itself
  (\<^verbatim>\<open>_id\<close>, \<^verbatim>\<open>__v\<close>, \<^verbatim>\<open>createdAt\<close>, \<^verbatim>\<open>updatedAt\<close>) are left out; the part the
  version \<^verbatim>\<open>__v\<close> plays in a save is described with the activations in flight.
\<close>

record deviceActivation =
  deviceId :: string
  activationDate :: date
  lastValidation :: date
  deviceInfo :: jsvalue

record licenseMetadata =
  planType :: string
  version :: string
  notes' :: string

record license =
  customerEmail :: string
  customerName :: string
  purchaseDate :: date
  expiryDate :: date
  isActive :: bool
  maxActivations :: int
  currentActivations :: int
  deviceActivations :: "deviceActivation list"
  metadata :: licenseMetadata

record usage =
  u_licenseKey :: string
  u_deviceId :: string
  u_action :: string
  u_metadata :: jsvalue
  u_timestamp :: date

record db =
  licenses :: "string \<rightharpoonup> license"
  usages :: "usage list"

definition empty_db :: db where
  "empty_db = \<lparr>licenses = Map.empty, usages = []\<rparr>"

subsection \<open>Errors, the environment of a request, responses\<close>

text \<open>
  What a handler's \<^verbatim>\<open>try\<close> block can catch: a \<^verbatim>\<open>TypeError\<close> of the handler's own code,
  a Mongoose validation error, or an error of the database (with its numeric code;
  11000 is the duplicate key error).
\<close>

datatype error =
    TypeError string
  | ValidationError string
  | MongoServerError int string

fun error_code :: "error \<Rightarrow> int option" where
  "error_code (MongoServerError c m) = Some c"
| "error_code _ = None"

fun error_message :: "error \<Rightarrow> string" where
  "error_message (TypeError m) = m"
| "error_message (ValidationError m) = m"
| "error_message (MongoServerError c m) = m"

text \<open>
  Everything a handler reads from outside the request and the database:
  \<^item> \<open>clock\<close>: the successive readings of \<^verbatim>\<open>new Date()\<close> during the request;
  \<^item> \<open>storeError\<close>: whether the \<open>i\<close>-th awaited database call of the request rejects,
    and with which error;
  \<^item> \<open>entropy\<close>: the bytes \<^verbatim>\<open>crypto.randomBytes\<close> hands out, in order;
  \<^item> \<open>addMonths\<close> and \<open>toISOString\<close>: the calendar arithmetic of \<^verbatim>\<open>Date.setMonth\<close>
    and the ISO-8601 rendering of a date (also what \<^verbatim>\<open>res.json\<close> writes for a
    \<^verbatim>\<open>Date\<close>), built-ins this repository does not define. \<^verbatim>\<open>setMonth\<close> leaves an
    \<^verbatim>\<open>Invalid Date\<close>, here \<open>None\<close>, when the month it is given takes the date out of the
    range of \<^verbatim>\<open>Date\<close>.
\<close>

record env =
  clock :: "nat \<Rightarrow> date"
  storeError :: "nat \<Rightarrow> error option"
  entropy :: "nat \<Rightarrow> 8 word"
  addMonths :: "date \<Rightarrow> int \<Rightarrow> date option"
  toISOString :: "date \<Rightarrow> string"

record response =
  status :: nat
  body :: "(string \<times> jsvalue) list"

definition json :: "(string \<times> jsvalue) list \<Rightarrow> response" where
  "json b = \<lparr>status = 200, body = b\<rparr>"

definition status_json :: "nat \<Rightarrow> (string \<times> jsvalue) list \<Rightarrow> response" where
  "status_json c b = \<lparr>status = c, body = b\<rparr>"

section \<open>Store operations\<close>

text \<open>\<^verbatim>\<open>License.findOne({ licenseKey: license_key, isActive: true })\<close>.\<close>

definition findOne :: "(string \<rightharpoonup> license) \<Rightarrow> string \<Rightarrow> license option" where
  "findOne ls k = (case ls k of None \<Rightarrow> None | Some l \<Rightarrow> if isActive l then Some l else None)"

text \<open>
  The synchronous part of a handler, between the \<^verbatim>\<open>await\<close> of \<^verbatim>\<open>findOne\<close> and the
  \<^verbatim>\<open>await\<close> of \<^verbatim>\<open>license.save()\<close>, either answers at once or asks for the document
  it changed to be saved and holds an answer ready for when the save resolves.
\<close>

datatype outcome = Respond response | SaveThen license response

text \<open>
  A handler of the shape
  \<^verbatim>\<open>try { const license = await License.findOne(..); ..; await license.save(); res.json(..) }
  catch (error) { res.status(500).json(..) }\<close>:
  either database call may reject, and the \<^verbatim>\<open>catch\<close> answers \<open>err\<close>.
\<close>

definition find_then_save ::
  "response \<Rightarrow> env \<Rightarrow> db \<Rightarrow> string \<Rightarrow> (license option \<Rightarrow> outcome) \<Rightarrow> db \<times> response" where
  "find_then_save err e d k f =
     (case storeError e 0 of
        Some x \<Rightarrow> (d, err)
      | None \<Rightarrow>
          (case f (findOne (licenses d) k) of
             Respond r \<Rightarrow> (d, r)
           | SaveThen doc r \<Rightarrow>
               (case storeError e 1 of
                  Some x \<Rightarrow> (d, err)
                | None \<Rightarrow> (d\<lparr>licenses := (licenses d)(k \<mapsto> doc)\<rparr>, r))))"

text \<open>\<^verbatim>\<open>activation.lastValidation = new Date()\<close> on the element
  \<^verbatim>\<open>deviceActivations.find(activation => activation.deviceId === device_id)\<close> returned:
  the first one with that device id.\<close>

fun setLastValidation :: "string \<Rightarrow> date \<Rightarrow> deviceActivation list \<Rightarrow> deviceActivation list" where
  "setLastValidation d t [] = []"
| "setLastValidation d t (a # as) =
     (if deviceId a = d then a\<lparr>lastValidation := t\<rparr> # as else a # setLastValidation d t as)"

section \<open>POST /api/validate-license\<close>

text \<open>The body of the request. \<^verbatim>\<open>license_key\<close> and \<^verbatim>\<open>device_id\<close> are strings, as the
  data model has them.\<close>

record validate_request =
  license_key :: string
  device_id :: string

definition validate_server_error :: response where
  "validate_server_error =
     status_json 500 [(''valid'', Bool False), (''message'', Str ''Server error during validation'')]"

text \<open>The handler from the result of \<^verbatim>\<open>findOne\<close> on: the expiry check, the search for the
  device, the new \<open>lastValidation\<close>.\<close>

definition validate_body :: "env \<Rightarrow> string \<Rightarrow> license option \<Rightarrow> outcome" where
  "validate_body e dev found =
     (case found of
        None \<Rightarrow>
          Respond (json [(''valid'', Bool False), (''message'', Str ''License not found or inactive'')])
      | Some license \<Rightarrow>
          if clock e 0 > expiryDate license then
            Respond (json [(''valid'', Bool False), (''message'', Str ''License has expired'')])
          else
            (case find (\<lambda>activation. deviceId activation = dev) (deviceActivations license) of
               None \<Rightarrow>
                 Respond (json [(''valid'', Bool False),
                                (''message'', Str ''License not activated on this device'')])
             | Some deviceActivation \<Rightarrow>
                 SaveThen
                   (license\<lparr>deviceActivations :=
                      setLastValidation dev (clock e 1) (deviceActivations license)\<rparr>)
                   (json [(''valid'', Bool True),
                          (''message'', Str ''License is valid''),
                          (''expiry_date'', Str (toISOString e (expiryDate license))),
                          (''customer_name'', Str (customerName license)),
                          (''plan_type'', Str (planType (metadata license)))])))"

definition validate_license :: "env \<Rightarrow> db \<Rightarrow> 'a validate_request_scheme \<Rightarrow> db \<times> response" where
  "validate_license e d req =
     find_then_save validate_server_error e d (license_key req)
       (validate_body e (device_id req))"

section \<open>POST /api/activate-license\<close>

record activate_request = validate_request +
  device_fingerprint :: jsvalue

definition activate_server_error :: response where
  "activate_server_error =
     status_json 500 [(''valid'', Bool False), (''message'', Str ''Server error during activation'')]"

definition limit_message :: "int \<Rightarrow> string" where
  "limit_message m =
     ''License activation limit reached ('' @ show_int m @ '' device'' @
     (if m > 1 then ''s'' else []) @ ''). Please contact support.''"

text \<open>The handler from the result of \<^verbatim>\<open>findOne\<close> on: the expiry check, the search for the
  device (an activation that exists only has its \<open>lastValidation\<close> set), the capacity
  check on \<open>currentActivations\<close>, then the push and the increment.\<close>

definition activate_body :: "env \<Rightarrow> string \<Rightarrow> jsvalue \<Rightarrow> license option \<Rightarrow> outcome" where
  "activate_body e dev fingerprint found =
     (case found of
        None \<Rightarrow> Respond (json [(''valid'', Bool False), (''message'', Str ''Invalid license key'')])
      | Some license \<Rightarrow>
          if clock e 0 > expiryDate license then
            Respond (json [(''valid'', Bool False),
                           (''message'', Str ''License has expired. Please contact support.'')])
          else
            (case find (\<lambda>activation. deviceId activation = dev) (deviceActivations license) of
               Some existingActivation \<Rightarrow>
                 SaveThen
                   (license\<lparr>deviceActivations :=
                      setLastValidation dev (clock e 1) (deviceActivations license)\<rparr>)
                   (json [(''valid'', Bool True),
                          (''message'', Str ''License already activated on this device''),
                          (''expiry_date'', Str (toISOString e (expiryDate license))),
                          (''customer_name'', Str (customerName license))])
             | None \<Rightarrow>
                 if currentActivations license \<ge> maxActivations license then
                   Respond (json [(''valid'', Bool False),
                                  (''message'', Str (limit_message (maxActivations license)))])
                 else
                   SaveThen
                     (license\<lparr>deviceActivations :=
                        deviceActivations license @
                          [\<lparr>deviceId = dev,
                            activationDate = clock e 1,
                            lastValidation = clock e 2,
                            deviceInfo = js_or fingerprint (Obj [])\<rparr>],
                        currentActivations := currentActivations license + 1\<rparr>)
                     (json [(''valid'', Bool True),
                            (''message'', Str ''License activated successfully!''),
                            (''expiry_date'', Str (toISOString e (expiryDate license))),
                            (''customer_name'', Str (customerName license)),
                            (''plan_type'', Str (planType (metadata license))),
                            (''activations_used'', Num (currentActivations license + 1)),
                            (''activations_total'', Num (maxActivations license))])))"

definition activate_license :: "env \<Rightarrow> db \<Rightarrow> 'a activate_request_scheme \<Rightarrow> db \<times> response" where
  "activate_license e d req =
     find_then_save activate_server_error e d (license_key req)
       (activate_body e (device_id req) (device_fingerprint req))"

section \<open>POST /api/record-usage\<close>

text \<open>The body has \<^verbatim>\<open>license_key\<close>, \<^verbatim>\<open>device_id\<close>, \<^verbatim>\<open>action\<close> and \<^verbatim>\<open>metadata\<close>.\<close>

record usage_request = validate_request +
  action :: string
  req_metadata :: jsvalue

text \<open>\<^verbatim>\<open>Usage.create\<close> is the only database call; when it rejects, the \<^verbatim>\<open>catch\<close>
  answers \<^verbatim>\<open>{ success: false }\<close> without a status of its own, so with 200.\<close>

definition record_usage :: "env \<Rightarrow> db \<Rightarrow> 'a usage_request_scheme \<Rightarrow> db \<times> response" where
  "record_usage e d req =
     (case storeError e 0 of
        Some x \<Rightarrow> (d, json [(''success'', Bool False)])
      | None \<Rightarrow>
          (d\<lparr>usages := usages d @
               [\<lparr>u_licenseKey = license_key req,
                 u_deviceId = device_id req,
                 u_action = action req,
                 u_metadata = js_or (req_metadata req) (Obj []),
                 u_timestamp = clock e 0\<rparr>]\<rparr>,
           json [(''success'', Bool True)]))"

section \<open>POST /api/admin/create-license\<close>

subsection \<open>The license key\<close>

text \<open>\<^verbatim>\<open>crypto.randomBytes(n)\<close>, drawing the \<open>n\<close> bytes from position \<open>pos\<close> of the
  entropy; \<^verbatim>\<open>Buffer.toString('hex')\<close>; \<^verbatim>\<open>Array.join\<close>.\<close>

definition randomBytes :: "(nat \<Rightarrow> 8 word) \<Rightarrow> nat \<Rightarrow> nat \<Rightarrow> 8 word list" where
  "randomBytes src pos n = map src [pos ..< pos + n]"

definition toHex :: "8 word list \<Rightarrow> string" where
  "toHex bs = concat (map (\<lambda>b. [digitChar (unat b div 16), digitChar (unat b mod 16)]) bs)"

fun join :: "string \<Rightarrow> string list \<Rightarrow> string" where
  "join sep [] = []"
| "join sep [x] = x"
| "join sep (x # y # ys) = x @ sep @ join sep (y # ys)"

text \<open>
  \<^verbatim>\<open>const segments = [];
  for (let i = 0; i < 3; i++) { segments.push(crypto.randomBytes(2).toString('hex').toUpperCase()); }
  const licenseKey = `BABYLON-${segments.join('-')}`;\<close>
\<close>

definition key_segment :: "(nat \<Rightarrow> 8 word) \<Rightarrow> nat \<Rightarrow> string" where
  "key_segment src i = toUpperCase (toHex (randomBytes src (2 * i) 2))"

definition key_segments :: "(nat \<Rightarrow> 8 word) \<Rightarrow> string list" where
  "key_segments src = foldl (\<lambda>segments i. segments @ [key_segment src i]) [] [0 ..< 3]"

definition generate_license_key :: "(nat \<Rightarrow> 8 word) \<Rightarrow> string" where
  "generate_license_key src = ''BABYLON-'' @ join ''-'' (key_segments src)"

subsection \<open>License.create\<close>

text \<open>
  Mongoose casts a value given for a \<^verbatim>\<open>String\<close> path: a string is kept, a number or a
  boolean is rendered, an object is taken for its \<^verbatim>\<open>_id\<close> when that is a non-empty
  string, and anything else is a cast error, here \<open>None\<close>. (\<^verbatim>\<open>null\<close> and \<^verbatim>\<open>undefined\<close>
  are never cast: the handler replaces them by a default first.)
\<close>

fun castString :: "jsvalue \<Rightarrow> string option" where
  "castString (Str s) = Some s"
| "castString (Num n) = Some (show_int n)"
| "castString (Bool b) = Some (if b then ''true'' else ''false'')"
| "castString (Obj fs) =
     (case map_of fs ''_id'' of Some (Str s) \<Rightarrow> if s \<noteq> [] then Some s else None | _ \<Rightarrow> None)"
| "castString _ = None"

text \<open>
  The document validation of \<^verbatim>\<open>licenseSchema\<close>: the paths that failed to cast and the
  \<^verbatim>\<open>required: true\<close> paths that are empty (for a \<^verbatim>\<open>String\<close> path Mongoose's
  \<^verbatim>\<open>required\<close> refuses the empty string as it refuses a missing value). The license key
  is always given by the handler; the expiry date it gives fails to cast when it is an
  \<^verbatim>\<open>Invalid Date\<close>. The texts stand for the messages of Mongoose, which no handler
  inspects.
\<close>

definition failing_paths ::
  "string \<Rightarrow> string \<Rightarrow> date option \<Rightarrow> jsvalue \<Rightarrow> jsvalue \<Rightarrow> string list" where
  "failing_paths email name expiry plan nts =
     (if email = [] then [''customerEmail: Path customerEmail is required.''] else []) @
     (if name = [] then [''customerName: Path customerName is required.''] else []) @
     (if expiry = None then [''expiryDate: Cast to date failed''] else []) @
     (if castString plan = None then [''metadata.planType: Cast to string failed''] else []) @
     (if castString nts = None then [''metadata.notes: Cast to string failed''] else [])"

text \<open>
  \<^verbatim>\<open>License.create({ licenseKey, customerEmail, customerName, expiryDate, maxActivations,
  metadata: { planType, notes } })\<close>: validation, then the insert, which the database may
  reject and which the unique index refuses for a key already there. The other paths
  take the defaults of the schema. (A value that failed to cast is among the failing
  paths, so the document is built from values that cast.)
\<close>

definition License_create ::
  "env \<Rightarrow> db \<Rightarrow> string \<Rightarrow> string \<Rightarrow> string \<Rightarrow> date option \<Rightarrow> int \<Rightarrow> jsvalue \<Rightarrow> jsvalue \<Rightarrow>
   error + db \<times> license" where
  "License_create e d key email name expiry maxAct plan nts =
     (if failing_paths email name expiry plan nts \<noteq> [] then
        Inl (ValidationError (''License validation failed: '' @
                              join '', '' (failing_paths email name expiry plan nts)))
      else
        (case storeError e 0 of
           Some x \<Rightarrow> Inl x
         | None \<Rightarrow>
             if licenses d key \<noteq> None then
               Inl (MongoServerError 11000 ''E11000 duplicate key error'')
             else
               (let license =
                  \<lparr>customerEmail = email,
                   customerName = name,
                   purchaseDate = clock e 1,
                   expiryDate = (case expiry of Some valid \<Rightarrow> valid | None \<Rightarrow> clock e 0),
                   isActive = True,
                   maxActivations = maxAct,
                   currentActivations = 0,
                   deviceActivations = [],
                   metadata =
                     \<lparr>planType = (case castString plan of Some s \<Rightarrow> s | None \<Rightarrow> []),
                      version = ''1.0'',
                      notes' = (case castString nts of Some s \<Rightarrow> s | None \<Rightarrow> [])\<rparr>\<rparr>
                in Inr (d\<lparr>licenses := (licenses d)(key \<mapsto> license)\<rparr>, license))))"

subsection \<open>The handler\<close>

text \<open>
  The handler of the second version in \<^verbatim>\<open>index.js\<close> (\<^verbatim>\<open>Create a new license - IMPROVED
  VERSION\<close>). The first version differs in three places: it gives \<^verbatim>\<open>customerEmail\<close> and
  \<^verbatim>\<open>customerName\<close> to \<^verbatim>\<open>License.create\<close> untrimmed, it uses \<^verbatim>\<open>durationMonths\<close> and
  \<^verbatim>\<open>maxActivations\<close> without \<^verbatim>\<open>parseInt\<close>, and its \<^verbatim>\<open>catch\<close> answers 500 for every error.
  The request has passed \<^verbatim>\<open>authenticateAdmin\<close>.
\<close>

record create_request =
  req_customerEmail :: jsvalue
  req_customerName :: jsvalue
  req_planType :: jsvalue
  req_durationMonths :: jsvalue
  req_maxActivations :: jsvalue
  req_notes :: jsvalue

text \<open>\<^verbatim>\<open>x.trim()\<close>: a method of strings only.\<close>

definition js_trim :: "string \<Rightarrow> jsvalue \<Rightarrow> error + string" where
  "js_trim name x =
     (case x of Str s \<Rightarrow> Inr (trim s) | _ \<Rightarrow> Inl (TypeError (name @ ''.trim is not a function'')))"

definition create_catch :: "error \<Rightarrow> response" where
  "create_catch x =
     (if error_code x = Some 11000 then
        status_json 400 [(''success'', Bool False),
                         (''error'', Str ''License key already exists. Please try again.'')]
      else
        status_json 500 [(''success'', Bool False), (''error'', Str (error_message x))])"

definition create_license :: "env \<Rightarrow> db \<Rightarrow> create_request \<Rightarrow> db \<times> response" where
  "create_license e d req =
     (let durationMonths = default_to (Num 12) (req_durationMonths req);
          maxActs = default_to (Num 1) (req_maxActivations req)
      in
        if \<not> truthy (req_customerEmail req) \<or> \<not> truthy (req_customerName req) then
          (d, status_json 400 [(''success'', Bool False),
                               (''error'', Str ''Customer email and name are required'')])
        else
          (let licenseKey = generate_license_key (entropy e);
               expiry = addMonths e (clock e 0) (parseInt_or durationMonths 12)
           in
             (case js_trim ''customerEmail'' (req_customerEmail req) of
                Inl x \<Rightarrow> (d, create_catch x)
              | Inr email \<Rightarrow>
                  (case js_trim ''customerName'' (req_customerName req) of
                     Inl x \<Rightarrow> (d, create_catch x)
                   | Inr name \<Rightarrow>
                       (case License_create e d licenseKey email name expiry
                               (parseInt_or maxActs 1)
                               (js_or (req_planType req) (Str ''single''))
                               (js_or (req_notes req) (Str [])) of
                          Inl x \<Rightarrow> (d, create_catch x)
                        | Inr (d', license) \<Rightarrow>
                            (d', json [(''success'', Bool True),
                                       (''license'',
                                        Obj [(''licenseKey'', Str licenseKey),
                                             (''customerName'', Str (customerName license)),
                                             (''customerEmail'', Str (customerEmail license)),
                                             (''expiryDate'', Str (toISOString e (expiryDate license))),
                                             (''maxActivations'', Num (maxActivations license)),
                                             (''planType'', Str (planType (metadata license)))])]))))))"

section \<open>POST /api/admin/deactivate-license\<close>

record deactivate_request =
  licenseKey :: string

text \<open>\<^verbatim>\<open>License.findOneAndUpdate({ licenseKey }, { isActive: false }, { new: true })\<close>:
  one update inside the database, on the document with that key, active or not.\<close>

definition deactivate_license :: "env \<Rightarrow> db \<Rightarrow> deactivate_request \<Rightarrow> db \<times> response" where
  "deactivate_license e d req =
     (case storeError e 0 of
        Some x \<Rightarrow> (d, status_json 500 [(''error'', Str (error_message x))])
      | None \<Rightarrow>
          (case licenses d (licenseKey req) of
             None \<Rightarrow> (d, status_json 404 [(''error'', Str ''License not found'')])
           | Some license \<Rightarrow>
               (d\<lparr>licenses := (licenses d)(licenseKey req \<mapsto> license\<lparr>isActive := False\<rparr>)\<rparr>,
                json [(''success'', Bool True), (''message'', Str ''License deactivated'')])))"

section \<open>Requests served one after another\<close>

text \<open>A request to one of the five endpoints that change or read the licenses, with the
  environment it runs in. \<open>run\<close> serves a list of them in order, each to its end before
  the next starts.\<close>

datatype request =
    ValidateLicense env validate_request
  | ActivateLicense env activate_request
  | RecordUsage env usage_request
  | CreateLicense env create_request
  | DeactivateLicense env deactivate_request

fun handle :: "request \<Rightarrow> db \<Rightarrow> db \<times> response" where
  "handle (ValidateLicense e req) d = validate_license e d req"
| "handle (ActivateLicense e req) d = activate_license e d req"
| "handle (RecordUsage e req) d = record_usage e d req"
| "handle (CreateLicense e req) d = create_license e d req"
| "handle (DeactivateLicense e req) d = deactivate_license e d req"

definition run :: "request list \<Rightarrow> db \<Rightarrow> db" where
  "run rs d = foldl (\<lambda>d r. fst (handle r d)) d rs"

section \<open>Activations in flight\<close>

text \<open>
  Node runs the code between two \<^verbatim>\<open>await\<close>s without interruption, and another request
  can run while a handler waits for the database. An activation therefore advances in
  two steps. The first runs from the start of the handler to its \<^verbatim>\<open>await license.save()\<close>:
  \<^verbatim>\<open>findOne\<close> reads the license, and the handler decides on the document it read and
  changes it. The second is the save and the answer.
\<close>

subsection \<open>What a save stores\<close>

text \<open>
  \<^verbatim>\<open>license.save()\<close> does not write the document back as a whole. Mongoose sends what
  the handler changed on the document since it was read, as one update of the stored
  document:
  \<^item> an activation the handler pushed is appended to the stored \<open>deviceActivations\<close>
    (\<^verbatim>\<open>$push\<close>);
  \<^item> a \<open>currentActivations\<close> the handler assigned replaces the stored one (\<^verbatim>\<open>$set\<close>);
  \<^item> a \<open>lastValidation\<close> the handler assigned at position \<open>i\<close> is set at position \<open>i\<close> of
    the stored \<open>deviceActivations\<close> (\<^verbatim>\<open>$set\<close> of \<^verbatim>\<open>deviceActivations.i.lastValidation\<close>).

  An assignment of the value the path already had is not a change. Mongoose guards an
  update of the third kind with the version of the document (\<^verbatim>\<open>__v\<close>), which every save
  that pushes increments and no other save changes: the update is refused with a
  \<^verbatim>\<open>VersionError\<close> when a push was stored since the document was read. No request removes
  an activation, so a push was stored in between exactly when the stored
  \<open>deviceActivations\<close> no longer has the length of the one read; the model compares the
  lengths.

  Below, \<open>rs\<close> is the \<open>deviceActivations\<close> of the document as read, \<open>ms\<close> that of the
  document as the handler changed it, \<open>ss\<close> the stored one.
\<close>

fun merge_lastValidation ::
  "deviceActivation list \<Rightarrow> deviceActivation list \<Rightarrow> deviceActivation list \<Rightarrow> deviceActivation list" where
  "merge_lastValidation (r # rs) (m # ms) (s # ss) =
     (if lastValidation m = lastValidation r then s else s\<lparr>lastValidation := lastValidation m\<rparr>) #
     merge_lastValidation rs ms ss"
| "merge_lastValidation rs ms ss = ss"

definition sets_lastValidation :: "deviceActivation list \<Rightarrow> deviceActivation list \<Rightarrow> bool" where
  "sets_lastValidation rs ms = list_ex (\<lambda>(r, m). lastValidation m \<noteq> lastValidation r) (zip rs ms)"

text \<open>The stored document after the save, or \<open>None\<close> for the \<^verbatim>\<open>VersionError\<close>.\<close>

definition save_document :: "license \<Rightarrow> license \<Rightarrow> license \<Rightarrow> license option" where
  "save_document read doc stored =
     (if sets_lastValidation (deviceActivations read) (deviceActivations doc) \<and>
         length (deviceActivations stored) \<noteq> length (deviceActivations read) then None
      else
        Some (stored\<lparr>deviceActivations :=
                       merge_lastValidation (deviceActivations read) (deviceActivations doc)
                         (deviceActivations stored) @
                       drop (length (deviceActivations read)) (deviceActivations doc),
                     currentActivations :=
                       (if currentActivations doc = currentActivations read
                        then currentActivations stored else currentActivations doc)\<rparr>))"

subsection \<open>The two steps of an activation\<close>

text \<open>
  Between its two steps an activation holds the document as \<^verbatim>\<open>findOne\<close> returned it, the
  document as the handler changed it, and the answer it will give when the save
  resolves (a handler saves only a document that \<^verbatim>\<open>findOne\<close> returned, so the first of
  these is always there). The save addresses the stored document of the license; it
  fails when the database rejects the call or the version check refuses the update, and
  the \<^verbatim>\<open>catch\<close> then answers 500. When nothing was stored between the two steps, the
  save leaves the handler's document in the database, which is what \<open>find_then_save\<close>
  does for a request served alone (\<open>save_document_alone\<close> and \<open>two_steps\<close> below).
\<close>

datatype progress = Started | Saving license license response | Answered response

fun activate_step :: "env \<Rightarrow> activate_request \<Rightarrow> progress \<Rightarrow> db \<Rightarrow> db \<times> progress" where
  "activate_step e req Started d =
     (case storeError e 0 of
        Some x \<Rightarrow> (d, Answered activate_server_error)
      | None \<Rightarrow>
          (case activate_body e (device_id req) (device_fingerprint req)
                  (findOne (licenses d) (license_key req)) of
             Respond r \<Rightarrow> (d, Answered r)
           | SaveThen doc r \<Rightarrow>
               (d, Saving (case findOne (licenses d) (license_key req) of
                             Some read \<Rightarrow> read
                           | None \<Rightarrow> doc) doc r)))"
| "activate_step e req (Saving read doc r) d =
     (case storeError e 1 of
        Some x \<Rightarrow> (d, Answered activate_server_error)
      | None \<Rightarrow>
          (case licenses d (license_key req) of
             None \<Rightarrow> (d, Answered activate_server_error)
           | Some stored \<Rightarrow>
               (case save_document read doc stored of
                  None \<Rightarrow> (d, Answered activate_server_error)
                | Some l \<Rightarrow> (d\<lparr>licenses := (licenses d)(license_key req \<mapsto> l)\<rparr>, Answered r))))"
| "activate_step e req (Answered r) d = (d, Answered r)"

text \<open>Two activations in flight; the schedule says whose step comes next.\<close>

datatype turn = First | Second

fun interleave ::
  "env \<times> activate_request \<Rightarrow> env \<times> activate_request \<Rightarrow> turn list \<Rightarrow>
   db \<times> progress \<times> progress \<Rightarrow> db \<times> progress \<times> progress" where
  "interleave A B [] c = c"
| "interleave A B (First # s) (d, pa, pb) =
     (case activate_step (fst A) (snd A) pa d of (d', pa') \<Rightarrow> interleave A B s (d', pa', pb))"
| "interleave A B (Second # s) (d, pa, pb) =
     (case activate_step (fst B) (snd B) pb d of (d', pb') \<Rightarrow> interleave A B s (d', pa, pb'))"

section \<open>How one request changes a license\<close>

text \<open>
  The ways a stored license differs after a request from what it was before:
  \<open>touched\<close> (a \<open>lastValidation\<close> was set), \<open>appended\<close> (an activation was pushed and
  the counter incremented, under the capacity check), or deactivated. A license that
  appears is \<open>fresh\<close>.
\<close>

definition touched :: "license \<Rightarrow> license \<Rightarrow> bool" where
  "touched l l' =
     (\<exists>dev t. l' = l\<lparr>deviceActivations := setLastValidation dev t (deviceActivations l)\<rparr>)"

definition appended :: "license \<Rightarrow> license \<Rightarrow> bool" where
  "appended l l' =
     (currentActivations l < maxActivations l \<and>
      (\<exists>a. l' = l\<lparr>deviceActivations := deviceActivations l @ [a],
                   currentActivations := currentActivations l + 1\<rparr>))"

definition license_step :: "license \<Rightarrow> license \<Rightarrow> bool" where
  "license_step l l' = (l' = l \<or> touched l l' \<or> appended l l' \<or> l' = l\<lparr>isActive := False\<rparr>)"

definition fresh :: "license \<Rightarrow> bool" where
  "fresh l = (currentActivations l = 0 \<and> deviceActivations l = [] \<and> isActive l)"

text \<open>The counter is the number of activations, and that number is within the capacity
  (a license whose \<open>maxActivations\<close> is negative has none).\<close>

definition license_inv :: "license \<Rightarrow> bool" where
  "license_inv l =
     (currentActivations l = int (length (deviceActivations l)) \<and>
      int (length (deviceActivations l)) \<le> max 0 (maxActivations l))"

fun is_activate :: "request \<Rightarrow> bool" where
  "is_activate (ActivateLicense e req) = True"
| "is_activate _ = False"

text \<open>A field of the create-license body that is missing, empty or white space only.\<close>

fun blank :: "jsvalue \<Rightarrow> bool" where
  "blank Undefined = True"
| "blank Null = True"
| "blank (Str s) = list_all isWhiteSpace s"
| "blank _ = False"

text \<open>The characters of the pattern \<^verbatim>\<open>[0-9A-F]\<close>.\<close>

definition isUpperHex :: "char \<Rightarrow> bool" where
  "isUpperHex c = (c \<in> set ''0123456789ABCDEF'')"

section \<open>A worked scenario\<close>

text \<open>
  The scenario of the specification, used for the concrete instances below: a license
  for one device is created; device D1 activates; device D2 is refused; D1 activates
  again. The clock, the entropy and the two \<^verbatim>\<open>Date\<close> built-ins are stand-ins.
\<close>

definition env0 :: env where
  "env0 = \<lparr>clock = (\<lambda>i. 1000 + int i), storeError = (\<lambda>i. None),
           entropy = (\<lambda>i. of_nat (171 + 37 * i)),
           addMonths = (\<lambda>t n. Some (t + n * 2592000000)), toISOString = show_int\<rparr>"

definition save_fails :: env where
  "save_fails =
     env0\<lparr>storeError := (\<lambda>i. if i = 1 then Some (MongoServerError 89 ''network timeout'') else None)\<rparr>"

definition create_req :: create_request where
  "create_req = \<lparr>req_customerEmail = Str ''a@b.com'', req_customerName = Str ''A'',
       req_planType = Undefined, req_durationMonths = Num 1, req_maxActivations = Num 1,
       req_notes = Undefined\<rparr>"

definition key0 :: string where
  "key0 = ''BABYLON-ABD0-F51A-3F64''"

definition license0 :: license where
  "license0 = \<lparr>customerEmail = ''a@b.com'', customerName = ''A'', purchaseDate = 1001,
     expiryDate = 2592001000, isActive = True, maxActivations = 1,
     currentActivations = 0, deviceActivations = [],
     metadata = \<lparr>planType = ''single'', version = ''1.0'', notes' = []\<rparr>\<rparr>"

definition license1 :: license where
  "license1 = license0\<lparr>deviceActivations :=
       [\<lparr>deviceId = ''D1'', activationDate = 1001, lastValidation = 1002, deviceInfo = Obj []\<rparr>],
     currentActivations := 1\<rparr>"

definition db0 :: db where
  "db0 = \<lparr>licenses = [key0 \<mapsto> license0], usages = []\<rparr>"

definition db1 :: db where
  "db1 = \<lparr>licenses = [key0 \<mapsto> license1], usages = []\<rparr>"

definition activate_D1 :: activate_request where
  "activate_D1 = \<lparr>license_key = key0, device_id = ''D1'', device_fingerprint = Undefined\<rparr>"

definition activate_D2 :: activate_request where
  "activate_D2 = \<lparr>license_key = key0, device_id = ''D2'', device_fingerprint = Undefined\<rparr>"

definition db_revoked :: db where
  "db_revoked = db1\<lparr>licenses := (licenses db1)(key0 \<mapsto> license1\<lparr>isActive := False\<rparr>)\<rparr>"

definition validate_D1 :: validate_request where
  "validate_D1 = \<lparr>license_key = key0, device_id = ''D1''\<rparr>"

definition activation_D1 :: deviceActivation where
  "activation_D1 =
     \<lparr>deviceId = ''D1'', activationDate = 1001, lastValidation = 1002, deviceInfo = Obj []\<rparr>"

definition license1_touched :: license where
  "license1_touched = license1\<lparr>deviceActivations := [activation_D1\<lparr>lastValidation := 1001\<rparr>]\<rparr>"

definition store_down :: env where
  "store_down = env0\<lparr>storeError := (\<lambda>i. Some (MongoServerError 89 ''network timeout''))\<rparr>"

definition blank_req :: create_request where
  "blank_req = create_req\<lparr>req_customerEmail := Str ''   ''\<rparr>"

definition usage_req :: usage_request where
  "usage_req = \<lparr>license_key = ''NO-SUCH-KEY'', device_id = ''D9'', action = ''launch'',
                 req_metadata = Undefined\<rparr>"

definition license1_D2 :: license where
  "license1_D2 = license0\<lparr>deviceActivations :=
       [\<lparr>deviceId = ''D2'', activationDate = 1001, lastValidation = 1002, deviceInfo = Obj []\<rparr>],
     currentActivations := 1\<rparr>"

definition activation_D2 :: deviceActivation where
  "activation_D2 =
     \<lparr>deviceId = ''D2'', activationDate = 1001, lastValidation = 1002, deviceInfo = Obj []\<rparr>"

text \<open>The license of the scenario as the database holds it after the activations of D1 and
  D2 were in flight together: both activations, and the counter at 1.\<close>

definition license_both :: license where
  "license_both = license0\<lparr>deviceActivations := [activation_D1, activation_D2],
     currentActivations := 1\<rparr>"

text \<open>A database in which the license of the scenario, with D1 activated, has room for
  a second device.\<close>

definition db_two_slots :: db where
  "db_two_slots = \<lparr>licenses = [key0 \<mapsto> license1\<lparr>maxActivations := 2\<rparr>], usages = []\<rparr>"

definition activated_response :: response where
  "activated_response =
     \<lparr>status = 200,
      body = [(''valid'', Bool True),
              (''message'', Str ''License activated successfully!''),
              (''expiry_date'', Str (show_int 2592001000)),
              (''customer_name'', Str ''A''),
              (''plan_type'', Str ''single''),
              (''activations_used'', Num 1),
              (''activations_total'', Num 1)]\<rparr>"

definition limit_response :: response where
  "limit_response =
     \<lparr>status = 200,
      body = [(''valid'', Bool False),
              (''message'',
               Str ''License activation limit reached (1 device). Please contact support.'')]\<rparr>"

section \<open>Properties\<close>

subsection \<open>Effects of one request\<close>

lemma length_setLastValidation [simp]: "length (setLastValidation dev t xs) = length xs"
  by (induction xs) auto

lemma map_deviceId_setLastValidation [simp]:
  "map deviceId (setLastValidation dev t xs) = map deviceId xs"
  by (induction xs) auto

lemma find_then_save_old:
  assumes "licenses d k = Some l"
      and "\<And>doc r. f (findOne (licenses d) k') = SaveThen doc r \<Longrightarrow> k' = k \<Longrightarrow> license_step l doc"
  shows "\<exists>l'. licenses (fst (find_then_save err e d k' f)) k = Some l' \<and> license_step l l'"
  using assms
  by (auto simp: find_then_save_def license_step_def split: option.splits outcome.splits)

lemma find_then_save_new:
  assumes "licenses d k = None"
      and "\<And>doc r. f (findOne (licenses d) k') = SaveThen doc r \<Longrightarrow> k' \<noteq> k"
  shows "licenses (fst (find_then_save err e d k' f)) k = None"
  using assms
  by (auto simp: find_then_save_def split: option.splits outcome.splits)

lemma validate_body_step:
  "validate_body e dev (findOne ls k) = SaveThen doc r \<Longrightarrow> \<exists>l. ls k = Some l \<and> touched l doc"
  by (auto simp: validate_body_def findOne_def touched_def split: option.splits if_splits)

lemma activate_body_step:
  "activate_body e dev fp (findOne ls k) = SaveThen doc r \<Longrightarrow>
     \<exists>l. ls k = Some l \<and> (touched l doc \<or> appended l doc)"
  by (auto simp: activate_body_def findOne_def touched_def appended_def
           split: option.splits if_splits)

lemma activate_body_saves:
  "activate_body e dev fp found = SaveThen doc r \<Longrightarrow>
     \<exists>l. found = Some l \<and> (touched l doc \<or> appended l doc)"
  by (auto simp: activate_body_def touched_def appended_def split: option.splits if_splits)

lemma findOne_active: "licenses d k = Some l \<Longrightarrow> isActive l \<Longrightarrow> findOne (licenses d) k = Some l"
  by (simp add: findOne_def)

text \<open>A license that is stored stays stored, and changes by one \<open>license_step\<close>.\<close>

lemma handle_old:
  assumes "licenses d k = Some l"
  shows "\<exists>l'. licenses (fst (handle r d)) k = Some l' \<and> license_step l l'"
proof (cases r)
  case (ValidateLicense e req)
  show ?thesis unfolding ValidateLicense handle.simps validate_license_def
    by (rule find_then_save_old [OF assms])
       (use assms in \<open>auto simp: license_step_def dest!: validate_body_step\<close>)
next
  case (ActivateLicense e req)
  show ?thesis unfolding ActivateLicense handle.simps activate_license_def
    by (rule find_then_save_old [OF assms])
       (use assms in \<open>auto simp: license_step_def dest!: activate_body_step\<close>)
next
  case (RecordUsage e req)
  then show ?thesis using assms
    by (auto simp: record_usage_def license_step_def split: option.splits)
next
  case (CreateLicense e req)
  then show ?thesis using assms
    by (auto simp: create_license_def License_create_def Let_def license_step_def
             split: option.splits sum.splits if_splits)
next
  case (DeactivateLicense e req)
  then show ?thesis using assms
    by (auto simp: deactivate_license_def license_step_def split: option.splits)
qed

text \<open>A license that appears is fresh: only create-license adds a key.\<close>

lemma handle_new:
  assumes "licenses d k = None" and "licenses (fst (handle r d)) k = Some l'"
  shows "fresh l'"
proof (cases r)
  case (ValidateLicense e req)
  have "licenses (fst (handle r d)) k = None"
    unfolding ValidateLicense handle.simps validate_license_def
    by (rule find_then_save_new [OF assms(1)])
       (use assms(1) in \<open>auto dest!: validate_body_step\<close>)
  with assms(2) show ?thesis by simp
next
  case (ActivateLicense e req)
  have "licenses (fst (handle r d)) k = None"
    unfolding ActivateLicense handle.simps activate_license_def
    by (rule find_then_save_new [OF assms(1)])
       (use assms(1) in \<open>auto dest!: activate_body_step\<close>)
  with assms(2) show ?thesis by simp
next
  case (RecordUsage e req)
  then show ?thesis using assms
    by (auto simp: record_usage_def split: option.splits)
next
  case (CreateLicense e req)
  then show ?thesis using assms
    by (auto simp: create_license_def License_create_def Let_def fresh_def
             split: option.splits sum.splits if_splits)
next
  case (DeactivateLicense e req)
  then show ?thesis using assms
    by (auto simp: deactivate_license_def split: option.splits if_splits)
qed


lemma handle_old_other:
  assumes "licenses d k = Some l" and "\<not> is_activate r"
  shows "\<exists>l'. licenses (fst (handle r d)) k = Some l' \<and>
           (l' = l \<or> touched l l' \<or> l' = l\<lparr>isActive := False\<rparr>)"
proof (cases r)
  case (ValidateLicense e req)
  have "\<exists>l'. licenses (fst (find_then_save validate_server_error e d (license_key req)
                  (validate_body e (device_id req)))) k = Some l' \<and>
             (l' = l \<or> touched l l' \<or> l' = l\<lparr>isActive := False\<rparr>)"
    using assms(1)
    by (auto simp: find_then_save_def split: option.splits outcome.splits
             dest!: validate_body_step)
  then show ?thesis by (simp add: ValidateLicense validate_license_def)
next
  case (ActivateLicense e req)
  with assms(2) show ?thesis by simp
next
  case (RecordUsage e req)
  then show ?thesis using assms
    by (auto simp: record_usage_def split: option.splits)
next
  case (CreateLicense e req)
  then show ?thesis using assms
    by (auto simp: create_license_def License_create_def Let_def
             split: option.splits sum.splits if_splits)
next
  case (DeactivateLicense e req)
  then show ?thesis using assms
    by (auto simp: deactivate_license_def split: option.splits)
qed

subsection \<open>What a save stores\<close>

lemma merge_lastValidation_prefix [simp]: "merge_lastValidation rs (rs @ ys) ss = ss"
proof (induction rs arbitrary: ss)
  case Nil
  then show ?case by simp
next
  case (Cons r rs)
  then show ?case by (cases ss) simp_all
qed

lemma merge_lastValidation_same [simp]: "merge_lastValidation rs rs ss = ss"
  using merge_lastValidation_prefix [of rs "[]" ss] by simp

lemma sets_lastValidation_prefix [simp]: "\<not> sets_lastValidation rs (rs @ ys)"
  by (induction rs) (simp_all add: sets_lastValidation_def)

lemma merge_lastValidation_set [simp]:
  "merge_lastValidation xs (setLastValidation dev t xs) xs = setLastValidation dev t xs"
  by (induction xs) auto

text \<open>The save of a pushed activation appends it to whatever is stored, and stores the
  counter of the handler's document.\<close>

lemma save_document_push:
  "save_document l
     (l\<lparr>deviceActivations := deviceActivations l @ [a],
        currentActivations := currentActivations l + 1\<rparr>) stored =
   Some (stored\<lparr>deviceActivations := deviceActivations stored @ [a],
                currentActivations := currentActivations l + 1\<rparr>)"
  by (simp add: save_document_def)

lemma save_document_touch:
  "save_document l (l\<lparr>deviceActivations := setLastValidation dev t (deviceActivations l)\<rparr>) l =
   Some (l\<lparr>deviceActivations := setLastValidation dev t (deviceActivations l)\<rparr>)"
  by (simp add: save_document_def)

text \<open>When the stored document is still the one that was read, the save stores the
  handler's document.\<close>

lemma save_document_alone:
  "touched l doc \<or> appended l doc \<Longrightarrow> save_document l doc l = Some doc"
  by (auto simp: touched_def appended_def save_document_push save_document_touch)

subsection \<open>Invariants of a run\<close>

lemma run_Nil [simp]: "run [] d = d"
  by (simp add: run_def)

lemma run_Cons [simp]: "run (r # rs) d = run rs (fst (handle r d))"
  by (simp add: run_def)

lemma license_step_inv:
  assumes "license_step l l'" and "license_inv l"
  shows "license_inv l'"
  using assms
  by (auto simp: license_step_def touched_def appended_def license_inv_def)

lemma license_step_maxActivations:
  "license_step l l' \<Longrightarrow> maxActivations l' = maxActivations l"
  by (auto simp: license_step_def touched_def appended_def)

lemma license_step_inactive:
  "license_step l l' \<Longrightarrow> \<not> isActive l \<Longrightarrow> \<not> isActive l'"
  by (auto simp: license_step_def touched_def appended_def)

lemma fresh_inv: "fresh l \<Longrightarrow> license_inv l"
  by (simp add: fresh_def license_inv_def)

lemma counter_step:
  "license_step l l' \<Longrightarrow> currentActivations l = int (length (deviceActivations l)) \<Longrightarrow>
     currentActivations l' = int (length (deviceActivations l'))"
  by (auto simp: license_step_def touched_def appended_def)

text \<open>Per key: a property of a stored license that every \<open>license_step\<close> keeps holds
  after any run.\<close>

lemma run_preserves_old:
  assumes step: "\<And>l l'. license_step l l' \<Longrightarrow> P l \<Longrightarrow> P l'"
  shows "licenses d k = Some l \<Longrightarrow> P l \<Longrightarrow> \<exists>l'. licenses (run rs d) k = Some l' \<and> P l'"
proof (induction rs arbitrary: d l)
  case Nil
  then show ?case by simp
next
  case (Cons r rs)
  from handle_old [OF Cons.prems(1), of r] obtain l1 where
    l1: "licenses (fst (handle r d)) k = Some l1" "license_step l l1" by blast
  from step [OF l1(2) Cons.prems(2)] have "P l1" .
  from Cons.IH [OF l1(1) this] show ?case by simp
qed

text \<open>If fresh licenses have the property as well, it holds for a key that was absent
  at the start or had it then.\<close>

lemma run_preserves:
  assumes step: "\<And>l l'. license_step l l' \<Longrightarrow> P l \<Longrightarrow> P l'"
      and new: "\<And>l. fresh l \<Longrightarrow> P l"
  shows "(case licenses d k of None \<Rightarrow> True | Some l \<Rightarrow> P l) \<Longrightarrow>
         licenses (run rs d) k = Some l' \<Longrightarrow> P l'"
proof (induction rs arbitrary: d)
  case Nil
  then show ?case by simp
next
  case (Cons r rs)
  have "case licenses (fst (handle r d)) k of None \<Rightarrow> True | Some l \<Rightarrow> P l"
  proof (cases "licenses d k")
    case None
    then show ?thesis
      by (auto split: option.splits dest: handle_new intro: new)
  next
    case (Some l)
    with Cons.prems(1) have "P l" by simp
    with handle_old [OF Some, of r] show ?thesis
      by (auto intro: step)
  qed
  from Cons.IH [OF this] Cons.prems(2) show ?case by simp
qed

subsection \<open>The scenario, evaluated\<close>

lemma env0_simps [simp]:
  "clock env0 i = 1000 + int i" "storeError env0 i = None"
  "addMonths env0 t n = Some (t + n * 2592000000)" "toISOString env0 = show_int"
  by (simp_all add: env0_def)

lemma save_fails_simps [simp]:
  "clock save_fails i = 1000 + int i" "storeError save_fails 0 = None"
  "storeError save_fails (Suc 0) = Some (MongoServerError 89 ''network timeout'')"
  "toISOString save_fails = show_int"
  by (simp_all add: save_fails_def env0_def)

lemma scenario_key: "generate_license_key (entropy env0) = key0"
  by (simp add: generate_license_key_def key_segments_def key_segment_def env0_def randomBytes_def toHex_def
       toUpperCase_def toUpperCaseChar_def digitChar_def upt_rec key0_def)

lemma scenario_create: "fst (create_license env0 empty_db create_req) = db0"
  by (simp add: scenario_key create_license_def create_req_def default_to_def parseInt_or_def
       js_trim_def trim_def isWhiteSpace_def License_create_def failing_paths_def js_or_def
       empty_db_def Let_def db0_def license0_def)

lemma scenario_activate_D1: "fst (activate_license env0 db0 activate_D1) = db1"
  by (simp add: activate_license_def find_then_save_def activate_body_def findOne_def
        db0_def db1_def license0_def license1_def activate_D1_def js_or_def)

lemma scenario_run:
  "run [CreateLicense env0 create_req, ActivateLicense env0 activate_D1] empty_db = db1"
  by (simp add: scenario_create scenario_activate_D1)

lemma scenario_db0: "licenses db0 key0 = Some license0" "licenses db1 key0 = Some license1"
  by (simp_all add: db0_def db1_def)

lemma scenario_license0 [simp]:
  "isActive license0" "expiryDate license0 = 2592001000" "deviceActivations license0 = []"
  "currentActivations license0 = 0" "maxActivations license0 = 1" "customerName license0 = ''A''"
  "planType (metadata license0) = ''single''"
  by (simp_all add: license0_def)

lemma scenario_limit: "limit_message 1 = ''License activation limit reached (1 device). Please contact support.''"
  by (simp add: limit_message_def show_int_def show_nat.simps digitChar_def)

lemma scenario_license1 [simp]:
  "isActive license1" "expiryDate license1 = 2592001000" "deviceActivations license1 = [activation_D1]"
  "currentActivations license1 = 1" "maxActivations license1 = 1" "customerName license1 = ''A''"
  "planType (metadata license1) = ''single''" "deviceId activation_D1 = ''D1''"
  by (simp_all add: license1_def license0_def activation_D1_def)

lemma scenario_requests [simp]:
  "license_key activate_D1 = key0" "device_id activate_D1 = ''D1''"
  "license_key activate_D2 = key0" "device_id activate_D2 = ''D2''"
  "license_key validate_D1 = key0" "device_id validate_D1 = ''D1''"
  by (simp_all add: activate_D1_def activate_D2_def validate_D1_def)

lemma scenario_in_flight:
  "interleave (env0, activate_D1) (env0, activate_D2) [First, Second, First, Second]
     (db0, Started, Started) =
   (db0\<lparr>licenses := [key0 \<mapsto> license_both]\<rparr>,
    Answered activated_response, Answered activated_response)"
  by (simp add: scenario_db0 activate_D1_def activate_D2_def activate_body_def findOne_def
        js_or_def json_def activated_response_def license_both_def license0_def
        activation_D1_def activation_D2_def save_document_def sets_lastValidation_def db0_def)

text \<open>D1, which is activated, activates again while the first activation of D2 is in
  flight: D1 reads the license, D2 reads it and saves its push, and the save of D1's
  \<open>lastValidation\<close> is then refused by the version check. D1 is answered 500.\<close>

lemma scenario_version_error:
  "interleave (env0, activate_D1) (env0, activate_D2) [First, Second, Second, First]
     (db_two_slots, Started, Started) =
   (db_two_slots\<lparr>licenses := [key0 \<mapsto> license1\<lparr>maxActivations := 2,
        deviceActivations := [activation_D1, activation_D2], currentActivations := 2\<rparr>]\<rparr>,
    Answered activate_server_error,
    Answered (json [(''valid'', Bool True),
                    (''message'', Str ''License activated successfully!''),
                    (''expiry_date'', Str (show_int 2592001000)),
                    (''customer_name'', Str ''A''),
                    (''plan_type'', Str ''single''),
                    (''activations_used'', Num 2),
                    (''activations_total'', Num 2)]))"
  by (simp add: db_two_slots_def activate_D1_def activate_D2_def activate_body_def findOne_def
        js_or_def license1_def license0_def
        activation_D1_def activation_D2_def save_document_def sets_lastValidation_def)

text \<open>A create-license request with \<^verbatim>\<open>maxActivations: -1\<close> is accepted.\<close>

lemma scenario_create_negative:
  "run [CreateLicense env0 (create_req\<lparr>req_maxActivations := Num (- 1)\<rparr>)] empty_db =
     \<lparr>licenses = [key0 \<mapsto> license0\<lparr>maxActivations := - 1\<rparr>], usages = []\<rparr>"
  by (simp add: scenario_key create_license_def create_req_def default_to_def parseInt_or_def
       js_trim_def trim_def isWhiteSpace_def License_create_def failing_paths_def js_or_def
       empty_db_def Let_def license0_def)

lemma scenario_validate_D1:
  "licenses (fst (validate_license env0 db1 validate_D1)) key0 = Some license1_touched"
  by (simp add: validate_license_def find_then_save_def validate_body_def findOne_def
        scenario_db0 license1_touched_def)

section \<open>The claims\<close>

subsection \<open>C1: the activations stay within the capacity\<close>

text \<open>
  C1, as amended. Take any database in which the license of key \<open>k\<close> is absent or has
  its counter equal to the number of its activations and that number within its capacity,
  and serve any list of requests one after another, each to its end before the next
  starts. For the license of key \<open>k\<close> after the run:
  \<^item> if its \<open>maxActivations\<close> is not negative, the length of its \<open>deviceActivations\<close> is
    at most \<open>maxActivations\<close>;
  \<^item> if its \<open>maxActivations\<close> is negative, its \<open>deviceActivations\<close> is empty.

  A license that was created during the run is covered: the key was absent at the start.
  \<open>maxActivations\<close> is an integer here, as \<^verbatim>\<open>parseInt\<close> in the create-license handler
  embedded above leaves it.
\<close>

theorem activations_within_capacity:
  assumes "case licenses d k of None \<Rightarrow> True | Some l \<Rightarrow> license_inv l"
      and "licenses (run rs d) k = Some l'"
  shows "(0 \<le> maxActivations l' \<longrightarrow> int (length (deviceActivations l')) \<le> maxActivations l') \<and>
         (maxActivations l' < 0 \<longrightarrow> deviceActivations l' = [])"
proof -
  have "license_inv l'"
    by (rule run_preserves [where P = license_inv, OF license_step_inv fresh_inv assms])
  then show ?thesis by (auto simp: license_inv_def)
qed

text \<open>An instance of each case: the license of the scenario after its creation and the
  activation of D1; the same two requests with \<^verbatim>\<open>maxActivations: -1\<close>, where the
  activation is refused.\<close>

theorem activations_within_capacity_witness:
  "(case licenses empty_db key0 of None \<Rightarrow> True | Some l \<Rightarrow> license_inv l) \<and>
   licenses (run [CreateLicense env0 create_req, ActivateLicense env0 activate_D1] empty_db) key0
     = Some license1 \<and>
   0 \<le> maxActivations license1 \<and>
   int (length (deviceActivations license1)) \<le> maxActivations license1 \<and>
   licenses (run [CreateLicense env0 (create_req\<lparr>req_maxActivations := Num (- 1)\<rparr>),
                  ActivateLicense env0 activate_D1] empty_db) key0
     = Some (license0\<lparr>maxActivations := - 1\<rparr>) \<and>
   maxActivations (license0\<lparr>maxActivations := - 1\<rparr>) < 0 \<and>
   deviceActivations (license0\<lparr>maxActivations := - 1\<rparr>) = []"
proof -
  have a: "case licenses empty_db key0 of None \<Rightarrow> True | Some l \<Rightarrow> license_inv l"
    by (simp add: empty_db_def)
  have b: "licenses (run [CreateLicense env0 create_req, ActivateLicense env0 activate_D1] empty_db) key0
     = Some license1"
    by (simp only: scenario_run) (simp add: db1_def)
  have c: "licenses (run [CreateLicense env0 (create_req\<lparr>req_maxActivations := Num (- 1)\<rparr>),
                  ActivateLicense env0 activate_D1] empty_db) key0
     = Some (license0\<lparr>maxActivations := - 1\<rparr>)"
    using scenario_create_negative
    by (simp add: activate_license_def find_then_save_def activate_body_def findOne_def
          license0_def)
  have n: "0 \<le> maxActivations license1" "maxActivations (license0\<lparr>maxActivations := - 1\<rparr>) < 0"
    by simp_all
  from activations_within_capacity [OF a b] activations_within_capacity [OF a c] n
  have "int (length (deviceActivations license1)) \<le> maxActivations license1"
    and "deviceActivations (license0\<lparr>maxActivations := - 1\<rparr>) = []"
    by blast+
  with a b c n show ?thesis by blast
qed

text \<open>
  C1 as stated fails in two ways.
  \<^item> For requests in flight together: the license of the scenario has room for one
    device; the activations of D1 and D2 both read it before either saves, both pass the
    capacity check, and both pushes are stored. The license then has two activations,
    and \<open>maxActivations\<close> 1.
  \<^item> For a license whose \<open>maxActivations\<close> is negative, which create-license accepts
    (\<^verbatim>\<open>parseInt(maxActivations) || 1\<close> keeps \<open>-1\<close>, and the schema sets no minimum): the
    license has no activation, and 0 exceeds \<open>-1\<close>.
\<close>

theorem capacity_exceeded_counterexample:
  "licenses db0 key0 = Some license0 \<and> maxActivations license0 = 1 \<and>
   licenses (fst (interleave (env0, activate_D1) (env0, activate_D2) [First, Second, First, Second]
                    (db0, Started, Started))) key0 = Some license_both \<and>
   deviceActivations license_both = [activation_D1, activation_D2] \<and>
   maxActivations license_both = 1 \<and>
   \<not> int (length (deviceActivations license_both)) \<le> maxActivations license_both \<and>
   licenses (run [CreateLicense env0 (create_req\<lparr>req_maxActivations := Num (- 1)\<rparr>)] empty_db) key0
     = Some (license0\<lparr>maxActivations := - 1\<rparr>) \<and>
   \<not> int (length (deviceActivations (license0\<lparr>maxActivations := - 1\<rparr>)))
       \<le> maxActivations (license0\<lparr>maxActivations := - 1\<rparr>)"
proof -
  have "licenses (fst (interleave (env0, activate_D1) (env0, activate_D2) [First, Second, First, Second]
                    (db0, Started, Started))) key0 = Some license_both"
    by (simp only: scenario_in_flight) simp
  moreover have "licenses (run [CreateLicense env0 (create_req\<lparr>req_maxActivations := Num (- 1)\<rparr>)]
                    empty_db) key0 = Some (license0\<lparr>maxActivations := - 1\<rparr>)"
    by (simp only: scenario_create_negative) simp
  ultimately show ?thesis
    by (simp add: scenario_db0 license_both_def)
qed

subsection \<open>C2: the capacity check and the append\<close>

text \<open>Two steps of an activation in flight, with nothing in between, are the handler.\<close>

lemma two_steps:
  "activate_step e req (snd (activate_step e req Started d)) (fst (activate_step e req Started d)) =
     (fst (activate_license e d req), Answered (snd (activate_license e d req)))"
proof (cases "activate_body e (device_id req) (device_fingerprint req)
                (findOne (licenses d) (license_key req))")
  case (Respond r)
  then show ?thesis
    by (simp add: activate_license_def find_then_save_def split: option.splits)
next
  case (SaveThen doc r)
  from activate_body_saves [OF this] obtain l where
    f: "findOne (licenses d) (license_key req) = Some l" and s: "touched l doc \<or> appended l doc"
    by blast
  from f have l: "licenses d (license_key req) = Some l"
    by (auto simp: findOne_def split: option.splits if_splits)
  from SaveThen f have b:
    "activate_body e (device_id req) (device_fingerprint req) (Some l) = SaveThen doc r"
    by simp
  show ?thesis
    by (simp add: activate_license_def find_then_save_def f b l save_document_alone [OF s]
          split: option.splits)
qed

lemma interleave_turns:
  "interleave A B (First # s) (d, pa, pb) =
     interleave A B s (fst (activate_step (fst A) (snd A) pa d),
                       snd (activate_step (fst A) (snd A) pa d), pb)"
  "interleave A B (Second # s) (d, pa, pb) =
     interleave A B s (fst (activate_step (fst B) (snd B) pb d), pa,
                       snd (activate_step (fst B) (snd B) pb d))"
  by (simp_all add: case_prod_beta)

lemma interleave_serial:
  "interleave (eA, A) (eB, B) [First, First, Second, Second] (d, Started, Started) =
     (fst (activate_license eB (fst (activate_license eA d A)) B),
      Answered (snd (activate_license eA d A)),
      Answered (snd (activate_license eB (fst (activate_license eA d A)) B)))"
  by (simp only: interleave_turns interleave.simps fst_conv snd_conv two_steps)

lemma activate_new:
  assumes "licenses d k = Some l" and "isActive l" and "\<not> clock e 0 > expiryDate l"
      and "find (\<lambda>a. deviceId a = dev) (deviceActivations l) = None"
      and "currentActivations l < maxActivations l"
  shows "activate_body e dev fp (findOne (licenses d) k) =
           SaveThen
             (l\<lparr>deviceActivations := deviceActivations l @
                   [\<lparr>deviceId = dev, activationDate = clock e 1, lastValidation = clock e 2,
                     deviceInfo = js_or fp (Obj [])\<rparr>],
                 currentActivations := currentActivations l + 1\<rparr>)
             (json [(''valid'', Bool True),
                    (''message'', Str ''License activated successfully!''),
                    (''expiry_date'', Str (toISOString e (expiryDate l))),
                    (''customer_name'', Str (customerName l)),
                    (''plan_type'', Str (planType (metadata l))),
                    (''activations_used'', Num (currentActivations l + 1)),
                    (''activations_total'', Num (maxActivations l))])"
  using assms by (simp add: activate_body_def findOne_def)

lemma find_append_other:
  "find (\<lambda>a. deviceId a = dev) xs = None \<Longrightarrow> deviceId b \<noteq> dev \<Longrightarrow>
     find (\<lambda>a. deviceId a = dev) (xs @ [b]) = None"
  by (induction xs) (auto split: if_splits)

text \<open>
  C2, as amended. The capacity check and the append are a read, a check and a write made
  by the handler: \<^verbatim>\<open>findOne\<close> reads the license, the handler compares
  \<open>currentActivations\<close> with \<open>maxActivations\<close> on the document it read, pushes the
  activation and saves the document. Take a license that is active, not expired and has
  one slot left, and two activations for different devices that the license does not
  hold, with a database that rejects no call.
  \<^item> Served one after the other (the schedule First, First, Second, Second, which by
    \<open>interleave_serial\<close> is the handler run twice), the first is answered with success
    and the second with the limit-reached message.
  \<^item> When both \<^verbatim>\<open>findOne\<close> calls come before either save (the schedule First, Second,
    First, Second), both pass the check, both save and both are answered with success,
    each reporting \<open>currentActivations + 1\<close> activations used.
\<close>

theorem check_then_save_not_atomic:
  assumes l: "licenses d k = Some l" "isActive l"
      and time: "\<not> clock eA 0 > expiryDate l" "\<not> clock eB 0 > expiryDate l"
      and new: "find (\<lambda>a. deviceId a = devA) (deviceActivations l) = None"
               "find (\<lambda>a. deviceId a = devB) (deviceActivations l) = None" "devA \<noteq> devB"
      and slot: "currentActivations l + 1 = maxActivations l"
      and ok: "storeError eA 0 = None" "storeError eA 1 = None"
              "storeError eB 0 = None" "storeError eB 1 = None"
  shows "(\<exists>d'. interleave (eA, \<lparr>license_key = k, device_id = devA, device_fingerprint = fpA\<rparr>)
                       (eB, \<lparr>license_key = k, device_id = devB, device_fingerprint = fpB\<rparr>)
                       [First, First, Second, Second] (d, Started, Started) =
           (d',
            Answered (json [(''valid'', Bool True),
                    (''message'', Str ''License activated successfully!''),
                    (''expiry_date'', Str (toISOString eA (expiryDate l))),
                    (''customer_name'', Str (customerName l)),
                    (''plan_type'', Str (planType (metadata l))),
                    (''activations_used'', Num (currentActivations l + 1)),
                    (''activations_total'', Num (maxActivations l))]),
            Answered (json [(''valid'', Bool False),
                            (''message'', Str (limit_message (maxActivations l)))]))) \<and>
         (\<exists>d'. interleave (eA, \<lparr>license_key = k, device_id = devA, device_fingerprint = fpA\<rparr>)
                       (eB, \<lparr>license_key = k, device_id = devB, device_fingerprint = fpB\<rparr>)
                       [First, Second, First, Second] (d, Started, Started) =
           (d',
            Answered (json [(''valid'', Bool True),
                    (''message'', Str ''License activated successfully!''),
                    (''expiry_date'', Str (toISOString eA (expiryDate l))),
                    (''customer_name'', Str (customerName l)),
                    (''plan_type'', Str (planType (metadata l))),
                    (''activations_used'', Num (currentActivations l + 1)),
                    (''activations_total'', Num (maxActivations l))]),
            Answered (json [(''valid'', Bool True),
                    (''message'', Str ''License activated successfully!''),
                    (''expiry_date'', Str (toISOString eB (expiryDate l))),
                    (''customer_name'', Str (customerName l)),
                    (''plan_type'', Str (planType (metadata l))),
                    (''activations_used'', Num (currentActivations l + 1)),
                    (''activations_total'', Num (maxActivations l))])))"
proof -
  from slot have lt: "currentActivations l < maxActivations l" by simp
  from l have f: "findOne (licenses d) k = Some l" by (rule findOne_active)
  note bA = activate_new [OF l time(1) new(1) lt, of fpA, unfolded f]
  note bB = activate_new [OF l time(2) new(2) lt, of fpB, unfolded f]
  from ok have ok': "storeError eA (Suc 0) = None" "storeError eB (Suc 0) = None"
    by simp_all
  show ?thesis
  proof (intro conjI)
    show "\<exists>d'. interleave (eA, \<lparr>license_key = k, device_id = devA, device_fingerprint = fpA\<rparr>)
                       (eB, \<lparr>license_key = k, device_id = devB, device_fingerprint = fpB\<rparr>)
                       [First, Second, First, Second] (d, Started, Started) =
           (d',
            Answered (json [(''valid'', Bool True),
                    (''message'', Str ''License activated successfully!''),
                    (''expiry_date'', Str (toISOString eA (expiryDate l))),
                    (''customer_name'', Str (customerName l)),
                    (''plan_type'', Str (planType (metadata l))),
                    (''activations_used'', Num (currentActivations l + 1)),
                    (''activations_total'', Num (maxActivations l))]),
            Answered (json [(''valid'', Bool True),
                    (''message'', Str ''License activated successfully!''),
                    (''expiry_date'', Str (toISOString eB (expiryDate l))),
                    (''customer_name'', Str (customerName l)),
                    (''plan_type'', Str (planType (metadata l))),
                    (''activations_used'', Num (currentActivations l + 1)),
                    (''activations_total'', Num (maxActivations l))]))"
      by (simp add: ok ok' bA bB l f save_document_push)
  next
    let ?lA = "l\<lparr>deviceActivations := deviceActivations l @
                   [\<lparr>deviceId = devA, activationDate = clock eA 1, lastValidation = clock eA 2,
                     deviceInfo = js_or fpA (Obj [])\<rparr>],
                 currentActivations := currentActivations l + 1\<rparr>"
    let ?dA = "d\<lparr>licenses := (licenses d)(k \<mapsto> ?lA)\<rparr>"
    have fB: "find (\<lambda>a. deviceId a = devB) (deviceActivations ?lA) = None"
      using new(2,3) by (simp add: find_append_other)
    have "activate_body eB devB fpB (findOne (licenses ?dA) k) =
            Respond (json [(''valid'', Bool False),
                            (''message'', Str (limit_message (maxActivations l)))])"
      using l(2) time(2) fB slot by (simp add: activate_body_def findOne_def)
    then show "\<exists>d'. interleave (eA, \<lparr>license_key = k, device_id = devA, device_fingerprint = fpA\<rparr>)
                       (eB, \<lparr>license_key = k, device_id = devB, device_fingerprint = fpB\<rparr>)
                       [First, First, Second, Second] (d, Started, Started) =
           (d',
            Answered (json [(''valid'', Bool True),
                    (''message'', Str ''License activated successfully!''),
                    (''expiry_date'', Str (toISOString eA (expiryDate l))),
                    (''customer_name'', Str (customerName l)),
                    (''plan_type'', Str (planType (metadata l))),
                    (''activations_used'', Num (currentActivations l + 1)),
                    (''activations_total'', Num (maxActivations l))]),
            Answered (json [(''valid'', Bool False),
                            (''message'', Str (limit_message (maxActivations l)))]))"
      by (simp add: ok ok' bA l f save_document_push)
  qed
qed

text \<open>An instance: D1 and D2 on the fresh one-device license of the scenario.\<close>

theorem check_then_save_not_atomic_witness:
  "licenses db0 key0 = Some license0 \<and> isActive license0 \<and>
   \<not> clock env0 0 > expiryDate license0 \<and>
   find (\<lambda>a. deviceId a = ''D1'') (deviceActivations license0) = None \<and>
   find (\<lambda>a. deviceId a = ''D2'') (deviceActivations license0) = None \<and>
   ''D1'' \<noteq> ''D2'' \<and>
   currentActivations license0 + 1 = maxActivations license0 \<and>
   storeError env0 0 = None \<and> storeError env0 1 = None \<and>
   snd (interleave (env0, activate_D1) (env0, activate_D2)
          [First, First, Second, Second] (db0, Started, Started)) =
     (Answered activated_response, Answered limit_response) \<and>
   snd (interleave (env0, activate_D1) (env0, activate_D2)
          [First, Second, First, Second] (db0, Started, Started)) =
     (Answered activated_response, Answered activated_response)"
proof -
  have h: "licenses db0 key0 = Some license0" "isActive license0"
    "\<not> clock env0 0 > expiryDate license0" "\<not> clock env0 0 > expiryDate license0"
    "find (\<lambda>a. deviceId a = ''D1'') (deviceActivations license0) = None"
    "find (\<lambda>a. deviceId a = ''D2'') (deviceActivations license0) = None"
    "''D1'' \<noteq> ''D2''"
    "currentActivations license0 + 1 = maxActivations license0"
    "storeError env0 0 = None" "storeError env0 1 = None"
    "storeError env0 0 = None" "storeError env0 1 = None"
    by (simp_all add: scenario_db0)
  from check_then_save_not_atomic [OF h, of Undefined Undefined]
  have "snd (interleave (env0, activate_D1) (env0, activate_D2)
          [First, First, Second, Second] (db0, Started, Started)) =
     (Answered activated_response, Answered limit_response)"
    and "snd (interleave (env0, activate_D1) (env0, activate_D2)
          [First, Second, First, Second] (db0, Started, Started)) =
     (Answered activated_response, Answered activated_response)"
    by (auto simp: activate_D1_def activate_D2_def activated_response_def limit_response_def
          json_def scenario_limit)
  with h show ?thesis by blast
qed

text \<open>
  C2 as stated fails: the license of the scenario has one slot left; after the
  \<^verbatim>\<open>findOne\<close> of both activations the database is unchanged and each handler holds
  the document it read with its own device appended, waiting to be saved; after both
  saves both devices have been answered \<^verbatim>\<open>valid: true\<close>.
\<close>

theorem concurrent_activations_counterexample:
  "licenses db0 key0 = Some license0 \<and>
   currentActivations license0 + 1 = maxActivations license0 \<and>
   interleave (env0, activate_D1) (env0, activate_D2) [First, Second] (db0, Started, Started) =
     (db0, Saving license0 license1 activated_response,
           Saving license0 license1_D2 activated_response) \<and>
   snd (interleave (env0, activate_D1) (env0, activate_D2)
          [First, Second, First, Second] (db0, Started, Started)) =
     (Answered activated_response, Answered activated_response) \<and>
   map_of (body activated_response) ''valid'' = Some (Bool True)"
  by (simp add: scenario_db0 activate_D1_def activate_D2_def activate_body_def findOne_def
        js_or_def json_def activated_response_def license1_def license1_D2_def license0_def
        save_document_def sets_lastValidation_def)

subsection \<open>C3 and C4: a device that is already activated\<close>

lemma activate_existing:
  assumes "storeError e 0 = None"
      and "licenses d (license_key req) = Some l" and "isActive l"
      and "\<not> clock e 0 > expiryDate l"
      and "find (\<lambda>a. deviceId a = device_id req) (deviceActivations l) = Some a"
  shows "activate_license e d req =
           (case storeError e 1 of
              Some x \<Rightarrow> (d, activate_server_error)
            | None \<Rightarrow>
                (d\<lparr>licenses := (licenses d)(license_key req \<mapsto>
                      l\<lparr>deviceActivations :=
                          setLastValidation (device_id req) (clock e 1) (deviceActivations l)\<rparr>)\<rparr>,
                 json [(''valid'', Bool True),
                       (''message'', Str ''License already activated on this device''),
                       (''expiry_date'', Str (toISOString e (expiryDate l))),
                       (''customer_name'', Str (customerName l))]))"
  using assms
  by (simp add: activate_license_def find_then_save_def activate_body_def findOne_active
        split: option.splits)

text \<open>
  C3, as amended. Let the license of the requested key be active and not expired, and
  let its activations hold the requested device id. Then the license stored after
  activate-license has a \<open>deviceActivations\<close> of the same length with the same device
  ids, and the same \<open>currentActivations\<close> and \<open>maxActivations\<close>: no slot is consumed,
  whatever the database does. When the database rejects neither call, activate-license
  answers 200 with \<^verbatim>\<open>valid: true\<close> and the message
  \<^verbatim>\<open>License already activated on this device\<close> (the response carries no
  \<^verbatim>\<open>alreadyActivated\<close> field; this message is what tells it from a new activation), and
  the stored license differs from the one before only in the \<open>lastValidation\<close> of that
  device. Nothing is assumed about the capacity, so this holds when the license is full.
\<close>

theorem activate_idempotent:
  assumes "licenses d (license_key req) = Some l" and "isActive l"
      and "\<not> clock e 0 > expiryDate l"
      and "find (\<lambda>a. deviceId a = device_id req) (deviceActivations l) = Some a"
  shows "(\<exists>l'. licenses (fst (activate_license e d req)) (license_key req) = Some l' \<and>
              length (deviceActivations l') = length (deviceActivations l) \<and>
              map deviceId (deviceActivations l') = map deviceId (deviceActivations l) \<and>
              currentActivations l' = currentActivations l \<and>
              maxActivations l' = maxActivations l) \<and>
         (storeError e 0 = None \<longrightarrow> storeError e 1 = None \<longrightarrow>
            activate_license e d req =
              (d\<lparr>licenses := (licenses d)(license_key req \<mapsto>
                    l\<lparr>deviceActivations :=
                        setLastValidation (device_id req) (clock e 1) (deviceActivations l)\<rparr>)\<rparr>,
               json [(''valid'', Bool True),
                     (''message'', Str ''License already activated on this device''),
                     (''expiry_date'', Str (toISOString e (expiryDate l))),
                     (''customer_name'', Str (customerName l))]))"
proof (cases "storeError e 0")
  case (Some x)
  then have "activate_license e d req = (d, activate_server_error)"
    by (simp add: activate_license_def find_then_save_def)
  with assms(1) Some show ?thesis by simp
next
  case None
  note r = activate_existing [OF None assms]
  show ?thesis
  proof (cases "storeError e 1")
    case ok: None
    with r None show ?thesis by simp
  next
    case (Some x)
    with r assms(1) None show ?thesis by simp
  qed
qed

text \<open>An instance: D1 activates again on the license of the scenario, which is full.\<close>

theorem activate_idempotent_witness:
  "storeError env0 0 = None \<and> storeError env0 1 = None \<and>
   licenses db1 (license_key activate_D1) = Some license1 \<and> isActive license1 \<and>
   \<not> clock env0 0 > expiryDate license1 \<and>
   find (\<lambda>a. deviceId a = device_id activate_D1) (deviceActivations license1) = Some activation_D1 \<and>
   currentActivations license1 \<ge> maxActivations license1 \<and>
   activate_license env0 db1 activate_D1 =
     (db1\<lparr>licenses := (licenses db1)(key0 \<mapsto> license1_touched)\<rparr>,
      json [(''valid'', Bool True),
            (''message'', Str ''License already activated on this device''),
            (''expiry_date'', Str (show_int 2592001000)),
            (''customer_name'', Str ''A'')]) \<and>
   length (deviceActivations license1_touched) = length (deviceActivations license1) \<and>
   currentActivations license1_touched = currentActivations license1"
proof -
  have h: "storeError env0 0 = None" "storeError env0 1 = None"
    "licenses db1 (license_key activate_D1) = Some license1" "isActive license1"
    "\<not> clock env0 0 > expiryDate license1"
    "find (\<lambda>a. deviceId a = device_id activate_D1) (deviceActivations license1) = Some activation_D1"
    by (simp_all add: scenario_db0)
  from activate_idempotent [OF h(3,4,5,6)] h(1,2)
  have r: "activate_license env0 db1 activate_D1 =
     (db1\<lparr>licenses := (licenses db1)(key0 \<mapsto> license1_touched)\<rparr>,
      json [(''valid'', Bool True),
            (''message'', Str ''License already activated on this device''),
            (''expiry_date'', Str (show_int 2592001000)),
            (''customer_name'', Str ''A'')])"
    by (simp add: license1_touched_def)
  have m: "length (deviceActivations license1_touched) = length (deviceActivations license1)"
    "currentActivations license1_touched = currentActivations license1"
    "currentActivations license1 \<ge> maxActivations license1"
    by (simp_all add: license1_touched_def)
  from h r m show ?thesis by blast
qed

text \<open>
  C3 as stated fails in what the second call returns: D1 activates again on the license
  of the scenario, which holds D1, is active and not expired. The answer is the four
  fields below; it has no \<^verbatim>\<open>alreadyActivated\<close> field.
\<close>

theorem no_alreadyActivated_counterexample:
  "findOne (licenses db1) (license_key activate_D1) = Some license1 \<and>
   \<not> clock env0 0 > expiryDate license1 \<and>
   find (\<lambda>a. deviceId a = device_id activate_D1) (deviceActivations license1) = Some activation_D1 \<and>
   snd (activate_license env0 db1 activate_D1) =
     \<lparr>status = 200,
      body = [(''valid'', Bool True),
              (''message'', Str ''License already activated on this device''),
              (''expiry_date'', Str (show_int 2592001000)),
              (''customer_name'', Str ''A'')]\<rparr> \<and>
   map_of (body (snd (activate_license env0 db1 activate_D1))) ''alreadyActivated'' = None"
  by (simp add: activate_license_def find_then_save_def activate_body_def findOne_def
        scenario_db0 json_def)

lemma limit_message_other:
  "limit_message m \<noteq> ''Invalid license key''"
  "limit_message m \<noteq> ''License has expired. Please contact support.''"
  "''Invalid license key'' \<noteq> limit_message m"
  "''License has expired. Please contact support.'' \<noteq> limit_message m"
  by (simp_all add: limit_message_def)

lemma activate_limit_only:
  assumes "snd (activate_license e d req) =
             json [(''valid'', Bool False), (''message'', Str (limit_message m))]"
  shows "\<exists>l. licenses d (license_key req) = Some l \<and>
             find (\<lambda>a. deviceId a = device_id req) (deviceActivations l) = None \<and>
             currentActivations l \<ge> maxActivations l"
proof (cases "findOne (licenses d) (license_key req)")
  case None
  with assms show ?thesis
    by (auto simp: activate_license_def find_then_save_def activate_body_def json_def
          status_json_def activate_server_error_def limit_message_other split: option.splits)
next
  case (Some l)
  then have l: "licenses d (license_key req) = Some l"
    by (auto simp: findOne_def split: option.splits if_splits)
  show ?thesis
  proof (cases "find (\<lambda>a. deviceId a = device_id req) (deviceActivations l)")
    case found: (Some a)
    with Some assms show ?thesis
      by (auto simp: activate_license_def find_then_save_def activate_body_def json_def
          status_json_def activate_server_error_def limit_message_other
          split: option.splits if_splits)
  next
    case None
    with Some assms have "currentActivations l \<ge> maxActivations l"
      by (auto simp: activate_license_def find_then_save_def activate_body_def json_def
          status_json_def activate_server_error_def limit_message_other
          split: option.splits if_splits)
    with l None show ?thesis by simp
  qed
qed

text \<open>
  C4. Two parts.
  \<^item> Let the license be active and not expired, let its activations hold the requested
    device id, and let the database reject neither call: activate-license answers 200
    with \<^verbatim>\<open>valid: true\<close> and the already-activated message, whatever
    \<open>currentActivations\<close> and \<open>maxActivations\<close> are.
  \<^item> If activate-license answers with the limit-reached message, the license of the
    requested key has no activation with the requested device id (and its counter has
    reached \<open>maxActivations\<close>).
\<close>

theorem already_activated_before_capacity:
  "(storeError e 0 = None \<longrightarrow> storeError e 1 = None \<longrightarrow>
    licenses d (license_key req) = Some l \<longrightarrow> isActive l \<longrightarrow> \<not> clock e 0 > expiryDate l \<longrightarrow>
    find (\<lambda>a. deviceId a = device_id req) (deviceActivations l) = Some a \<longrightarrow>
      status (snd (activate_license e d req)) = 200 \<and>
      map_of (body (snd (activate_license e d req))) ''valid'' = Some (Bool True) \<and>
      map_of (body (snd (activate_license e d req))) ''message'' =
        Some (Str ''License already activated on this device''))
   \<and>
   (snd (activate_license e d req) =
      json [(''valid'', Bool False), (''message'', Str (limit_message m))] \<longrightarrow>
    (\<exists>l. licenses d (license_key req) = Some l \<and>
         find (\<lambda>a. deviceId a = device_id req) (deviceActivations l) = None \<and>
         currentActivations l \<ge> maxActivations l))"
proof (intro conjI impI)
  assume a: "storeError e 0 = None" "storeError e 1 = None"
    "licenses d (license_key req) = Some l" "isActive l" "\<not> clock e 0 > expiryDate l"
    "find (\<lambda>a. deviceId a = device_id req) (deviceActivations l) = Some a"
  from activate_existing [OF a(1,3,4,5,6)] a(2)
  have r: "snd (activate_license e d req) =
            json [(''valid'', Bool True),
                  (''message'', Str ''License already activated on this device''),
                  (''expiry_date'', Str (toISOString e (expiryDate l))),
                  (''customer_name'', Str (customerName l))]"
    by simp
  show "status (snd (activate_license e d req)) = 200"
    and "map_of (body (snd (activate_license e d req))) ''valid'' = Some (Bool True)"
    and "map_of (body (snd (activate_license e d req))) ''message'' =
        Some (Str ''License already activated on this device'')"
    by (simp_all add: r json_def)
next
  assume "snd (activate_license e d req) =
      json [(''valid'', Bool False), (''message'', Str (limit_message m))]"
  then show "\<exists>l. licenses d (license_key req) = Some l \<and>
         find (\<lambda>a. deviceId a = device_id req) (deviceActivations l) = None \<and>
         currentActivations l \<ge> maxActivations l"
    by (rule activate_limit_only)
qed

text \<open>An instance of each part on the full license of the scenario: D1 is let through,
  D2 is refused.\<close>

theorem already_activated_before_capacity_witness:
  "storeError env0 0 = None \<and> storeError env0 1 = None \<and>
   licenses db1 (license_key activate_D1) = Some license1 \<and> isActive license1 \<and>
   \<not> clock env0 0 > expiryDate license1 \<and>
   find (\<lambda>a. deviceId a = device_id activate_D1) (deviceActivations license1) = Some activation_D1 \<and>
   currentActivations license1 \<ge> maxActivations license1 \<and>
   status (snd (activate_license env0 db1 activate_D1)) = 200 \<and>
   map_of (body (snd (activate_license env0 db1 activate_D1))) ''valid'' = Some (Bool True) \<and>
   snd (activate_license env0 db1 activate_D2) =
      json [(''valid'', Bool False), (''message'', Str (limit_message 1))] \<and>
   licenses db1 (license_key activate_D2) = Some license1 \<and>
   find (\<lambda>a. deviceId a = device_id activate_D2) (deviceActivations license1) = None"
proof -
  have h: "storeError env0 0 = None" "storeError env0 1 = None"
    "licenses db1 (license_key activate_D1) = Some license1" "isActive license1"
    "\<not> clock env0 0 > expiryDate license1"
    "find (\<lambda>a. deviceId a = device_id activate_D1) (deviceActivations license1) = Some activation_D1"
    "currentActivations license1 \<ge> maxActivations license1"
    by (simp_all add: scenario_db0)
  have lim: "snd (activate_license env0 db1 activate_D2) =
      json [(''valid'', Bool False), (''message'', Str (limit_message 1))]"
    by (simp add: activate_license_def find_then_save_def activate_body_def findOne_def
          scenario_db0)
  from already_activated_before_capacity
         [of env0 db1 activate_D1 license1 activation_D1 1] h
  have 1: "status (snd (activate_license env0 db1 activate_D1)) = 200"
    "map_of (body (snd (activate_license env0 db1 activate_D1))) ''valid'' = Some (Bool True)"
    by blast+
  from already_activated_before_capacity
         [of env0 db1 activate_D2 license1 activation_D1 1] lim
  have 2: "licenses db1 (license_key activate_D2) = Some license1 \<and>
    find (\<lambda>a. deviceId a = device_id activate_D2) (deviceActivations license1) = None"
    by (auto simp: scenario_db0)
  from h lim 1 2 show ?thesis by blast
qed

subsection \<open>C5: saving the lastValidation timestamp\<close>

text \<open>
  C5, as amended. Let the license of the requested key be active and not expired, let its
  activations hold the requested device id, and let \<^verbatim>\<open>findOne\<close> not be rejected. If the
  save of the \<open>lastValidation\<close> timestamp succeeds, validate-license stores the license
  with that timestamp set and answers 200 with \<^verbatim>\<open>valid: true\<close>. If the save is rejected,
  the \<^verbatim>\<open>catch\<close> of the handler answers 500 with \<^verbatim>\<open>valid: false\<close> and the message
  \<^verbatim>\<open>Server error during validation\<close>, and the database is unchanged.
\<close>

theorem validate_save_outcome:
  assumes "storeError e 0 = None"
      and "licenses d (license_key req) = Some l" and "isActive l"
      and "\<not> clock e 0 > expiryDate l"
      and "find (\<lambda>a. deviceId a = device_id req) (deviceActivations l) = Some a"
  shows "(storeError e 1 = None \<longrightarrow>
            validate_license e d req =
              (d\<lparr>licenses := (licenses d)(license_key req \<mapsto>
                    l\<lparr>deviceActivations :=
                        setLastValidation (device_id req) (clock e 1) (deviceActivations l)\<rparr>)\<rparr>,
               json [(''valid'', Bool True),
                     (''message'', Str ''License is valid''),
                     (''expiry_date'', Str (toISOString e (expiryDate l))),
                     (''customer_name'', Str (customerName l)),
                     (''plan_type'', Str (planType (metadata l)))])) \<and>
         (storeError e 1 \<noteq> None \<longrightarrow>
            validate_license e d req =
              (d, status_json 500 [(''valid'', Bool False),
                                   (''message'', Str ''Server error during validation'')]))"
  using assms
  by (auto simp: validate_license_def find_then_save_def validate_body_def findOne_active
        validate_server_error_def)

text \<open>An instance of each case: D1 validates on the license of the scenario, once with
  a database that works and once with one that rejects the save.\<close>

theorem validate_save_outcome_witness:
  "storeError env0 0 = None \<and> storeError save_fails 0 = None \<and>
   licenses db1 (license_key validate_D1) = Some license1 \<and> isActive license1 \<and>
   \<not> clock env0 0 > expiryDate license1 \<and> \<not> clock save_fails 0 > expiryDate license1 \<and>
   find (\<lambda>a. deviceId a = device_id validate_D1) (deviceActivations license1) = Some activation_D1 \<and>
   storeError env0 1 = None \<and>
   validate_license env0 db1 validate_D1 =
     (db1\<lparr>licenses := (licenses db1)(key0 \<mapsto> license1_touched)\<rparr>,
      json [(''valid'', Bool True),
            (''message'', Str ''License is valid''),
            (''expiry_date'', Str (show_int 2592001000)),
            (''customer_name'', Str ''A''),
            (''plan_type'', Str ''single'')]) \<and>
   storeError save_fails 1 \<noteq> None \<and>
   validate_license save_fails db1 validate_D1 =
     (db1, status_json 500 [(''valid'', Bool False),
                            (''message'', Str ''Server error during validation'')])"
proof -
  have h: "storeError env0 0 = None" "storeError save_fails 0 = None"
    "licenses db1 (license_key validate_D1) = Some license1" "isActive license1"
    "\<not> clock env0 0 > expiryDate license1" "\<not> clock save_fails 0 > expiryDate license1"
    "find (\<lambda>a. deviceId a = device_id validate_D1) (deviceActivations license1) = Some activation_D1"
    "storeError env0 1 = None" "storeError save_fails 1 \<noteq> None"
    by (simp_all add: scenario_db0)
  from validate_save_outcome [OF h(1,3,4,5,7)] h(8)
  have 1: "validate_license env0 db1 validate_D1 =
     (db1\<lparr>licenses := (licenses db1)(key0 \<mapsto> license1_touched)\<rparr>,
      json [(''valid'', Bool True),
            (''message'', Str ''License is valid''),
            (''expiry_date'', Str (show_int 2592001000)),
            (''customer_name'', Str ''A''),
            (''plan_type'', Str ''single'')])"
    by (simp add: license1_touched_def)
  from validate_save_outcome [OF h(2,3,4,6,7)] h(9)
  have 2: "validate_license save_fails db1 validate_D1 =
     (db1, status_json 500 [(''valid'', Bool False),
                            (''message'', Str ''Server error during validation'')])"
    by blast
  from h 1 2 show ?thesis by blast
qed

text \<open>
  C5 as stated fails: the license is found, active and not expired, the activation of D1
  exists, the save of the timestamp is rejected, and the answer is not \<^verbatim>\<open>valid: true\<close>
  but the 500 of the \<^verbatim>\<open>catch\<close>.
\<close>

theorem validate_save_failure_counterexample:
  "storeError save_fails 0 = None \<and>
   findOne (licenses db1) (license_key validate_D1) = Some license1 \<and>
   \<not> clock save_fails 0 > expiryDate license1 \<and>
   find (\<lambda>a. deviceId a = device_id validate_D1) (deviceActivations license1) = Some activation_D1 \<and>
   storeError save_fails 1 = Some (MongoServerError 89 ''network timeout'') \<and>
   snd (validate_license save_fails db1 validate_D1) =
     \<lparr>status = 500,
      body = [(''valid'', Bool False), (''message'', Str ''Server error during validation'')]\<rparr>"
  by (simp add: validate_license_def find_then_save_def validate_body_def findOne_def
        scenario_db0 validate_server_error_def status_json_def)

subsection \<open>C6: deactivation\<close>

lemma findOne_inactive:
  "licenses d k = Some l \<Longrightarrow> \<not> isActive l \<Longrightarrow> findOne (licenses d) k = None"
  by (simp add: findOne_def)

lemma run_inactive:
  assumes "licenses d k = Some l" and "\<not> isActive l"
  shows "\<exists>l'. licenses (run rs d) k = Some l' \<and> \<not> isActive l'"
proof (rule run_preserves_old [where P = "\<lambda>l. \<not> isActive l"])
  show "licenses d k = Some l" by (rule assms(1))
  show "\<not> isActive l" by (rule assms(2))
  show "\<not> isActive l2" if "license_step l1 l2" and "\<not> isActive l1" for l1 l2
    using that by (rule license_step_inactive)
qed

lemma deactivate_success:
  assumes "deactivate_license e d \<lparr>licenseKey = k\<rparr> = (d', r)" and "status r = 200"
  shows "\<exists>l. licenses d k = Some l \<and>
              d' = d\<lparr>licenses := (licenses d)(k \<mapsto> l\<lparr>isActive := False\<rparr>)\<rparr>"
proof (cases "storeError e 0")
  case (Some x)
  with assms(1) have "r = status_json 500 [(''error'', Str (error_message x))]"
    by (simp add: deactivate_license_def)
  with assms(2) show ?thesis by (simp add: status_json_def)
next
  case None
  show ?thesis
  proof (cases "licenses d k")
    case nolic: None
    with None assms(1) have "r = status_json 404 [(''error'', Str ''License not found'')]"
      by (simp add: deactivate_license_def)
    with assms(2) show ?thesis by (simp add: status_json_def)
  next
    case (Some l)
    with None assms(1) have "d' = d\<lparr>licenses := (licenses d)(k \<mapsto> l\<lparr>isActive := False\<rparr>)\<rparr>"
      by (simp add: deactivate_license_def)
    with Some show ?thesis by simp
  qed
qed

text \<open>
  C6. When deactivate-license answers with success for key \<open>k\<close>, the database differs
  from the one before only in the license of key \<open>k\<close>, and that license only in
  \<open>isActive\<close>, now false. After any list of further requests, a validate-license for
  \<open>k\<close> whose \<^verbatim>\<open>findOne\<close> the database does not reject answers
  \<^verbatim>\<open>{ valid: false, message: 'License not found or inactive' }\<close>, and an activate-license
  answers \<^verbatim>\<open>{ valid: false, message: 'Invalid license key' }\<close>; neither changes the
  database. The clock of the request, the expiry date and the activations of the license
  are arbitrary.
\<close>

theorem deactivate_revokes:
  assumes "deactivate_license e d \<lparr>licenseKey = k\<rparr> = (d', r)" and "status r = 200"
  shows "(\<exists>l. licenses d k = Some l \<and>
              d' = d\<lparr>licenses := (licenses d)(k \<mapsto> l\<lparr>isActive := False\<rparr>)\<rparr>) \<and>
         (storeError e1 0 = None \<longrightarrow>
            validate_license e1 (run rs d') \<lparr>license_key = k, device_id = dev\<rparr> =
              (run rs d', json [(''valid'', Bool False),
                                (''message'', Str ''License not found or inactive'')])) \<and>
         (storeError e2 0 = None \<longrightarrow>
            activate_license e2 (run rs d')
                \<lparr>license_key = k, device_id = dev, device_fingerprint = fp\<rparr> =
              (run rs d', json [(''valid'', Bool False), (''message'', Str ''Invalid license key'')]))"
proof -
  from deactivate_success [OF assms] obtain l where l: "licenses d k = Some l"
      and d': "d' = d\<lparr>licenses := (licenses d)(k \<mapsto> l\<lparr>isActive := False\<rparr>)\<rparr>"
    by blast
  from d' have "licenses d' k = Some (l\<lparr>isActive := False\<rparr>)" by simp
  moreover have "\<not> isActive (l\<lparr>isActive := False\<rparr>)" by simp
  ultimately obtain l' where "licenses (run rs d') k = Some l'" "\<not> isActive l'"
    using run_inactive [of d' k _ rs] by blast
  then have none: "findOne (licenses (run rs d')) k = None" by (rule findOne_inactive)
  have v: "storeError e1 0 = None \<longrightarrow>
            validate_license e1 (run rs d') \<lparr>license_key = k, device_id = dev\<rparr> =
              (run rs d', json [(''valid'', Bool False),
                                (''message'', Str ''License not found or inactive'')])"
    by (simp add: validate_license_def find_then_save_def validate_body_def none)
  have a: "storeError e2 0 = None \<longrightarrow>
            activate_license e2 (run rs d')
                \<lparr>license_key = k, device_id = dev, device_fingerprint = fp\<rparr> =
              (run rs d', json [(''valid'', Bool False), (''message'', Str ''Invalid license key'')])"
    by (simp add: activate_license_def find_then_save_def activate_body_def none)
  from l d' v a show ?thesis by blast
qed

text \<open>An instance: the license of the scenario, with D1 activated and the expiry date
  ahead, is deactivated; D1 then tries to activate, to validate and to activate again.\<close>

theorem deactivate_revokes_witness:
  "deactivate_license env0 db1 \<lparr>licenseKey = key0\<rparr> =
     (db_revoked, json [(''success'', Bool True), (''message'', Str ''License deactivated'')]) \<and>
   status (json [(''success'', Bool True), (''message'', Str ''License deactivated'')]) = 200 \<and>
   storeError env0 0 = None \<and>
   validate_license env0 (run [ActivateLicense env0 activate_D1] db_revoked)
       \<lparr>license_key = key0, device_id = ''D1''\<rparr> =
     (run [ActivateLicense env0 activate_D1] db_revoked,
      json [(''valid'', Bool False), (''message'', Str ''License not found or inactive'')]) \<and>
   activate_license env0 (run [ActivateLicense env0 activate_D1] db_revoked)
       \<lparr>license_key = key0, device_id = ''D1'', device_fingerprint = Undefined\<rparr> =
     (run [ActivateLicense env0 activate_D1] db_revoked,
      json [(''valid'', Bool False), (''message'', Str ''Invalid license key'')])"
proof -
  have a: "deactivate_license env0 db1 \<lparr>licenseKey = key0\<rparr> =
     (db_revoked, json [(''success'', Bool True), (''message'', Str ''License deactivated'')])"
    by (simp add: deactivate_license_def scenario_db0 db_revoked_def)
  have b: "status (json [(''success'', Bool True), (''message'', Str ''License deactivated'')]) = 200"
    by (simp add: json_def)
  have c: "storeError env0 0 = None" by simp
  from deactivate_revokes
         [OF a b, of env0 "[ActivateLicense env0 activate_D1]" "''D1''" env0 Undefined] c
  have "validate_license env0 (run [ActivateLicense env0 activate_D1] db_revoked)
       \<lparr>license_key = key0, device_id = ''D1''\<rparr> =
     (run [ActivateLicense env0 activate_D1] db_revoked,
      json [(''valid'', Bool False), (''message'', Str ''License not found or inactive'')])"
    and "activate_license env0 (run [ActivateLicense env0 activate_D1] db_revoked)
       \<lparr>license_key = key0, device_id = ''D1'', device_fingerprint = Undefined\<rparr> =
     (run [ActivateLicense env0 activate_D1] db_revoked,
      json [(''valid'', Bool False), (''message'', Str ''Invalid license key'')])"
    by blast+
  with a b c show ?thesis by blast
qed

subsection \<open>C7: create-license refuses blank names and addresses\<close>

lemma trim_blank:
  assumes "list_all isWhiteSpace s"
  shows "trim s = []"
proof -
  from assms have *: "dropWhile isWhiteSpace s = []"
    by (simp add: list_all_iff)
  show ?thesis unfolding trim_def * by simp
qed

lemma blank_truthy:
  assumes "blank x" and "truthy x"
  shows "\<exists>s. x = Str s \<and> trim s = []"
  using assms by (cases x) (simp_all add: trim_blank)

lemma create_catch_other:
  "error_code x \<noteq> Some 11000 \<Longrightarrow>
     create_catch x = status_json 500 [(''success'', Bool False), (''error'', Str (error_message x))]"
  by (simp add: create_catch_def)

lemma License_create_required:
  assumes "email = [] \<or> name = []"
  shows "\<exists>m. License_create e d key email name expiry maxAct plan nts = Inl (ValidationError m)"
proof -
  from assms have "failing_paths email name expiry plan nts \<noteq> []"
    by (auto simp: failing_paths_def)
  then show ?thesis by (simp add: License_create_def)
qed

lemma js_trim_cases:
  "(\<exists>s. x = Str s \<and> js_trim n x = Inr (trim s)) \<or> (\<exists>m. js_trim n x = Inl (TypeError m))"
  by (cases x) (simp_all add: js_trim_def)

lemma create_blank_truthy:
  assumes "blank (req_customerEmail req) \<or> blank (req_customerName req)"
      and "truthy (req_customerEmail req)" and "truthy (req_customerName req)"
  shows "\<exists>x. error_code x = None \<and> create_license e d req = (d, create_catch x)"
proof -
  consider (te) m where "js_trim ''customerEmail'' (req_customerEmail req) = Inl (TypeError m)"
    | (tn) s m where "js_trim ''customerEmail'' (req_customerEmail req) = Inr s"
        "js_trim ''customerName'' (req_customerName req) = Inl (TypeError m)"
    | (ok) s t where "req_customerEmail req = Str s" "req_customerName req = Str t"
        "js_trim ''customerEmail'' (req_customerEmail req) = Inr (trim s)"
        "js_trim ''customerName'' (req_customerName req) = Inr (trim t)"
    using js_trim_cases [of "req_customerEmail req" "''customerEmail''"]
          js_trim_cases [of "req_customerName req" "''customerName''"]
    by blast
  then show ?thesis
  proof cases
    case te
    with assms(2,3) have "create_license e d req = (d, create_catch (TypeError m))"
      by (simp add: create_license_def Let_def)
    then show ?thesis by (intro exI [of _ "TypeError m"]) simp
  next
    case tn
    with assms(2,3) have "create_license e d req = (d, create_catch (TypeError m))"
      by (simp add: create_license_def Let_def)
    then show ?thesis by (intro exI [of _ "TypeError m"]) simp
  next
    case ok
    from assms(1) ok(1,2) have "trim s = [] \<or> trim t = []"
      by (auto simp: trim_blank)
    from License_create_required [OF this] obtain m where
      "License_create e d (generate_license_key (entropy e)) (trim s) (trim t)
         (addMonths e (clock e 0) (parseInt_or (default_to (Num 12) (req_durationMonths req)) 12))
         (parseInt_or (default_to (Num 1) (req_maxActivations req)) 1)
         (js_or (req_planType req) (Str ''single'')) (js_or (req_notes req) (Str []))
       = Inl (ValidationError m)"
      by blast
    with assms(2,3) ok(3,4) have "create_license e d req = (d, create_catch (ValidationError m))"
      by (simp add: create_license_def Let_def)
    then show ?thesis by (intro exI [of _ "ValidationError m"]) simp
  qed
qed

text \<open>
  C7. Let the \<^verbatim>\<open>customerEmail\<close> or the \<^verbatim>\<open>customerName\<close> of a create-license request be
  missing, \<^verbatim>\<open>null\<close>, empty or white space only. Then no license is created (the database
  is unchanged) and the answer has \<^verbatim>\<open>success: false\<close>. When one of the two fields is
  falsy, the handler's own check answers 400. When both are truthy, so that the blank
  one is white space only, the check lets it pass; it is trimmed to the empty string
  (or \<^verbatim>\<open>trim\<close> throws on a field that is not a string), the \<^verbatim>\<open>required\<close> validation of
  the schema refuses it inside \<^verbatim>\<open>License.create\<close>, and the \<^verbatim>\<open>catch\<close> answers 500 with the
  message of the validation error.
\<close>

theorem create_rejects_blank:
  assumes "blank (req_customerEmail req) \<or> blank (req_customerName req)"
  shows "fst (create_license e d req) = d \<and>
         status (snd (create_license e d req)) =
           (if truthy (req_customerEmail req) \<and> truthy (req_customerName req) then 500 else 400) \<and>
         map_of (body (snd (create_license e d req))) ''success'' = Some (Bool False)"
proof (cases "truthy (req_customerEmail req) \<and> truthy (req_customerName req)")
  case True
  with create_blank_truthy [OF assms, of e d] obtain x where
    "error_code x = None" "create_license e d req = (d, create_catch x)" by blast
  with True show ?thesis
    by (simp add: create_catch_other status_json_def)
next
  case False
  then have "create_license e d req =
      (d, status_json 400 [(''success'', Bool False),
                           (''error'', Str ''Customer email and name are required'')])"
    by (auto simp: create_license_def)
  with False show ?thesis by (simp add: status_json_def)
qed

text \<open>An instance: the request of the scenario with \<^verbatim>\<open>customerEmail\<close> three spaces.\<close>

theorem create_rejects_blank_witness:
  "blank (req_customerEmail blank_req) \<and>
   fst (create_license env0 db1 blank_req) = db1 \<and>
   status (snd (create_license env0 db1 blank_req)) = 500 \<and>
   map_of (body (snd (create_license env0 db1 blank_req))) ''success'' = Some (Bool False)"
proof -
  have b: "blank (req_customerEmail blank_req)"
    by (simp add: blank_req_def isWhiteSpace_def)
  have t: "truthy (req_customerEmail blank_req) \<and> truthy (req_customerName blank_req)"
    by (simp add: blank_req_def create_req_def)
  from b have "blank (req_customerEmail blank_req) \<or> blank (req_customerName blank_req)" ..
  from create_rejects_blank [OF this, of env0 db1] b t show ?thesis by simp
qed

subsection \<open>C8: the format of a license key\<close>

lemma hex_upper_all:
  "list_all (\<lambda>n. isUpperHex (toUpperCaseChar (digitChar n))) [0 ..< 16]"
  by (simp add: upt_rec digitChar_def toUpperCaseChar_def isUpperHex_def)

lemma hex_upper:
  assumes "n < 16"
  shows "isUpperHex (toUpperCaseChar (digitChar n))"
proof -
  from assms have "n \<in> set [0 ..< 16]" by simp
  with hex_upper_all show ?thesis
    unfolding list_all_iff by blast
qed

lemma byte_nibbles: "unat (b :: 8 word) div 16 < 16" "unat b mod 16 < 16"
proof -
  have "unat b < 2 ^ LENGTH(8)" by (rule unsigned_less)
  then have "unat b < 256" by simp
  then show "unat b div 16 < 16" by simp
  show "unat b mod 16 < 16" by simp
qed

lemma key_segment_eq:
  "key_segment src i = toUpperCase (toHex [src (2 * i), src (2 * i + 1)])"
  by (simp add: key_segment_def randomBytes_def upt_rec)

lemma key_segment_shape:
  "length (key_segment src i) = 4" "list_all isUpperHex (key_segment src i)"
  by (simp_all add: key_segment_eq toHex_def toUpperCase_def hex_upper byte_nibbles)

lemma key_segments_eq:
  "key_segments src = [key_segment src 0, key_segment src 1, key_segment src 2]"
  by (simp add: key_segments_def upt_rec numeral_2_eq_2)

lemma create_success:
  assumes "create_license e d req = (d', r)" and "status r = 200"
  shows "licenses d (generate_license_key (entropy e)) = None \<and>
         (\<exists>l. d' = d\<lparr>licenses := (licenses d)(generate_license_key (entropy e) \<mapsto> l)\<rparr>)"
  using assms
  by (auto simp: create_license_def Let_def License_create_def create_catch_def status_json_def
        json_def split: if_splits sum.splits option.splits)

text \<open>
  C8. The key \<^verbatim>\<open>create-license\<close> generates is \<^verbatim>\<open>BABYLON-\<close> followed by three segments
  separated by dashes. Each segment is the upper-case hexadecimal rendering of two bytes
  of the entropy: four characters, each of \<^verbatim>\<open>0-9A-F\<close>. When create-license answers 200,
  the license it added is stored under that key, which was not in use.
\<close>

theorem license_key_format:
  "generate_license_key src =
     ''BABYLON-'' @ key_segment src 0 @ ''-'' @ key_segment src 1 @ ''-'' @ key_segment src 2 \<and>
   (\<forall>i. key_segment src i = toUpperCase (toHex [src (2 * i), src (2 * i + 1)]) \<and>
        length (key_segment src i) = 4 \<and> list_all isUpperHex (key_segment src i)) \<and>
   (create_license e d req = (d', r) \<longrightarrow> status r = 200 \<longrightarrow>
      licenses d (generate_license_key (entropy e)) = None \<and>
      (\<exists>l. d' = d\<lparr>licenses := (licenses d)(generate_license_key (entropy e) \<mapsto> l)\<rparr>))"
  using key_segment_eq [of src] key_segment_shape [of src] create_success [of e d req d' r]
  by (simp add: generate_license_key_def key_segments_eq)

text \<open>An instance: the creation of the scenario.\<close>

theorem license_key_format_witness:
  "create_license env0 empty_db create_req =
     (fst (create_license env0 empty_db create_req), snd (create_license env0 empty_db create_req)) \<and>
   status (snd (create_license env0 empty_db create_req)) = 200 \<and>
   generate_license_key (entropy env0) = ''BABYLON-ABD0-F51A-3F64'' \<and>
   licenses empty_db (generate_license_key (entropy env0)) = None \<and>
   fst (create_license env0 empty_db create_req) =
     empty_db\<lparr>licenses := (licenses empty_db)(generate_license_key (entropy env0) \<mapsto> license0)\<rparr>"
proof -
  have a: "create_license env0 empty_db create_req =
     (fst (create_license env0 empty_db create_req), snd (create_license env0 empty_db create_req))"
    by simp
  have b: "status (snd (create_license env0 empty_db create_req)) = 200"
    by (simp add: scenario_key create_license_def create_req_def default_to_def parseInt_or_def
       js_trim_def trim_def isWhiteSpace_def License_create_def failing_paths_def js_or_def
       empty_db_def Let_def json_def)
  have c: "fst (create_license env0 empty_db create_req) =
     empty_db\<lparr>licenses := (licenses empty_db)(generate_license_key (entropy env0) \<mapsto> license0)\<rparr>"
    by (simp only: scenario_create scenario_key) (simp add: db0_def empty_db_def)
  from license_key_format [of "entropy env0" env0 empty_db create_req
         "fst (create_license env0 empty_db create_req)"
         "snd (create_license env0 empty_db create_req)"] a b
  have "licenses empty_db (generate_license_key (entropy env0)) = None" by blast
  with a b c show ?thesis by (simp add: scenario_key key0_def)
qed

subsection \<open>C9: record-usage\<close>

text \<open>
  C9. When \<^verbatim>\<open>Usage.create\<close> is not rejected, record-usage appends the event and answers
  \<^verbatim>\<open>{ success: true }\<close>; when it is rejected, record-usage answers \<^verbatim>\<open>{ success: false }\<close>,
  still with status 200, and the database is unchanged. The answer does not depend on
  the licenses in the database, and the licenses are never changed.
\<close>

theorem record_usage_soft:
  "(storeError e 0 = None \<longrightarrow>
      record_usage e d req =
        (d\<lparr>usages := usages d @
             [\<lparr>u_licenseKey = license_key req, u_deviceId = device_id req,
               u_action = action req, u_metadata = js_or (req_metadata req) (Obj []),
               u_timestamp = clock e 0\<rparr>]\<rparr>,
         \<lparr>status = 200, body = [(''success'', Bool True)]\<rparr>)) \<and>
   (storeError e 0 \<noteq> None \<longrightarrow>
      record_usage e d req = (d, \<lparr>status = 200, body = [(''success'', Bool False)]\<rparr>)) \<and>
   snd (record_usage e (d\<lparr>licenses := ls\<rparr>) req) = snd (record_usage e d req) \<and>
   licenses (fst (record_usage e d req)) = licenses d"
  by (auto simp: record_usage_def json_def split: option.splits)

text \<open>An instance: a usage event for a key no license has, with a database that works and
  with one that rejects every call.\<close>

theorem record_usage_soft_witness:
  "storeError env0 0 = None \<and> licenses db1 (license_key usage_req) = None \<and>
   record_usage env0 db1 usage_req =
     (db1\<lparr>usages :=
          [\<lparr>u_licenseKey = ''NO-SUCH-KEY'', u_deviceId = ''D9'', u_action = ''launch'',
            u_metadata = Obj [], u_timestamp = 1000\<rparr>]\<rparr>,
      \<lparr>status = 200, body = [(''success'', Bool True)]\<rparr>) \<and>
   storeError store_down 0 \<noteq> None \<and>
   record_usage store_down db1 usage_req =
     (db1, \<lparr>status = 200, body = [(''success'', Bool False)]\<rparr>)"
proof -
  have a: "storeError env0 0 = None" by simp
  have b: "storeError store_down 0 \<noteq> None" by (simp add: store_down_def)
  have c: "licenses db1 (license_key usage_req) = None"
    by (simp add: db1_def usage_req_def key0_def)
  from record_usage_soft [of env0 db1 usage_req "licenses db1"] a
  have 1: "record_usage env0 db1 usage_req =
     (db1\<lparr>usages :=
          [\<lparr>u_licenseKey = ''NO-SUCH-KEY'', u_deviceId = ''D9'', u_action = ''launch'',
            u_metadata = Obj [], u_timestamp = 1000\<rparr>]\<rparr>,
      \<lparr>status = 200, body = [(''success'', Bool True)]\<rparr>)"
    by (simp add: usage_req_def js_or_def db1_def)
  from record_usage_soft [of store_down db1 usage_req "licenses db1"] b
  have 2: "record_usage store_down db1 usage_req =
     (db1, \<lparr>status = 200, body = [(''success'', Bool False)]\<rparr>)"
    by blast
  from a b c 1 2 show ?thesis by blast
qed

subsection \<open>C10: the counter is the number of activations\<close>

lemma step_counts:
  assumes "license_step l l1"
  shows "currentActivations l1 - currentActivations l =
           int (length (deviceActivations l1)) - int (length (deviceActivations l))"
  using assms by (auto simp: license_step_def touched_def appended_def)

text \<open>
  C10, as amended: for requests served one after another. Three parts.
  \<^item> Take any database in which the license of key \<open>k\<close> is absent or has
    \<open>currentActivations\<close> equal to the length of \<open>deviceActivations\<close>, and serve any list
    of requests one after another, each to its end before the next starts: the license
    of key \<open>k\<close> then has \<open>currentActivations\<close>
    equal to the length of \<open>deviceActivations\<close>, so the capacity check on the counter,
    \<^verbatim>\<open>currentActivations >= maxActivations\<close>, decides as the same check on the length
    would.
  \<^item> One request, served alone, moves the counter of a stored license by exactly as much
    as the length of its \<open>deviceActivations\<close>, and a request other than activate changes
    neither.
  \<^item> A license that a request adds starts with the counter 0 and no activation.
\<close>

theorem counter_equals_length:
  "((case licenses d k of None \<Rightarrow> True
       | Some l \<Rightarrow> currentActivations l = int (length (deviceActivations l))) \<longrightarrow>
    licenses (run rs d) k = Some l' \<longrightarrow>
      currentActivations l' = int (length (deviceActivations l')) \<and>
      (currentActivations l' \<ge> maxActivations l') =
        (int (length (deviceActivations l')) \<ge> maxActivations l'))
   \<and>
   (licenses d k = Some l \<longrightarrow>
      (\<exists>l1. licenses (fst (handle r d)) k = Some l1 \<and>
         currentActivations l1 - currentActivations l =
           int (length (deviceActivations l1)) - int (length (deviceActivations l)) \<and>
         (\<not> is_activate r \<longrightarrow>
            currentActivations l1 = currentActivations l \<and>
            length (deviceActivations l1) = length (deviceActivations l))))
   \<and>
   (licenses d k = None \<longrightarrow> licenses (fst (handle r d)) k = Some l2 \<longrightarrow>
      currentActivations l2 = 0 \<and> deviceActivations l2 = [])"
proof (intro conjI impI)
  assume start: "case licenses d k of None \<Rightarrow> True
       | Some l \<Rightarrow> currentActivations l = int (length (deviceActivations l))"
     and l': "licenses (run rs d) k = Some l'"
  have *: "currentActivations l' = int (length (deviceActivations l'))"
    by (rule run_preserves
          [where P = "\<lambda>l. currentActivations l = int (length (deviceActivations l))",
           OF counter_step _ start l'])
       (simp_all add: fresh_def)
  show "currentActivations l' = int (length (deviceActivations l'))" by (rule *)
  show "(currentActivations l' \<ge> maxActivations l') =
        (int (length (deviceActivations l')) \<ge> maxActivations l')"
    by (simp add: *)
next
  assume l: "licenses d k = Some l"
  show "\<exists>l1. licenses (fst (handle r d)) k = Some l1 \<and>
         currentActivations l1 - currentActivations l =
           int (length (deviceActivations l1)) - int (length (deviceActivations l)) \<and>
         (\<not> is_activate r \<longrightarrow>
            currentActivations l1 = currentActivations l \<and>
            length (deviceActivations l1) = length (deviceActivations l))"
  proof (cases "is_activate r")
    case True
    with handle_old [OF l, of r] show ?thesis
      by (auto dest: step_counts)
  next
    case False
    from handle_old_other [OF l False] obtain l1 where
      l1: "licenses (fst (handle r d)) k = Some l1"
          "l1 = l \<or> touched l l1 \<or> l1 = l\<lparr>isActive := False\<rparr>" by blast
    from l1(2) have "currentActivations l1 = currentActivations l \<and>
            length (deviceActivations l1) = length (deviceActivations l)"
      by (auto simp: touched_def)
    with l1(1) show ?thesis by simp
  qed
next
  assume "licenses d k = None" and "licenses (fst (handle r d)) k = Some l2"
  then have "fresh l2" by (rule handle_new)
  then show "currentActivations l2 = 0" and "deviceActivations l2 = []"
    by (simp_all add: fresh_def)
qed

text \<open>An instance of each part, in the scenario: the run that creates the license and
  activates D1; the activation of D1 alone and a validation by D1, which moves neither
  the counter nor the length; the creation alone.\<close>

theorem counter_equals_length_witness:
  "(case licenses empty_db key0 of None \<Rightarrow> True
       | Some l \<Rightarrow> currentActivations l = int (length (deviceActivations l))) \<and>
   licenses (run [CreateLicense env0 create_req, ActivateLicense env0 activate_D1] empty_db) key0
     = Some license1 \<and>
   currentActivations license1 = int (length (deviceActivations license1)) \<and>
   licenses db0 key0 = Some license0 \<and>
   licenses (fst (handle (ActivateLicense env0 activate_D1) db0)) key0 = Some license1 \<and>
   currentActivations license1 - currentActivations license0 =
     int (length (deviceActivations license1)) - int (length (deviceActivations license0)) \<and>
   licenses db1 key0 = Some license1 \<and>
   \<not> is_activate (ValidateLicense env0 validate_D1) \<and>
   licenses (fst (handle (ValidateLicense env0 validate_D1) db1)) key0 = Some license1_touched \<and>
   currentActivations license1_touched = currentActivations license1 \<and>
   length (deviceActivations license1_touched) = length (deviceActivations license1) \<and>
   licenses empty_db key0 = None \<and>
   licenses (fst (handle (CreateLicense env0 create_req) empty_db)) key0 = Some license0 \<and>
   currentActivations license0 = 0 \<and> deviceActivations license0 = []"
proof -
  have a: "case licenses empty_db key0 of None \<Rightarrow> True
       | Some l \<Rightarrow> currentActivations l = int (length (deviceActivations l))"
    by (simp add: empty_db_def)
  have b: "licenses (run [CreateLicense env0 create_req, ActivateLicense env0 activate_D1] empty_db) key0
     = Some license1"
    by (simp only: scenario_run scenario_db0)
  have c: "licenses db0 key0 = Some license0" "licenses db1 key0 = Some license1"
    by (rule scenario_db0)+
  have d: "licenses (fst (handle (ActivateLicense env0 activate_D1) db0)) key0 = Some license1"
    by (simp add: scenario_activate_D1 scenario_db0)
  have e: "licenses empty_db key0 = None" by (simp add: empty_db_def)
  have f: "licenses (fst (handle (CreateLicense env0 create_req) empty_db)) key0 = Some license0"
    by (simp add: scenario_create scenario_db0)
  have g: "\<not> is_activate (ValidateLicense env0 validate_D1)"
    "licenses (fst (handle (ValidateLicense env0 validate_D1) db1)) key0 = Some license1_touched"
    by (simp_all add: scenario_validate_D1)
  from counter_equals_length
         [of empty_db key0 "[CreateLicense env0 create_req, ActivateLicense env0 activate_D1]"
             license1 license0 "CreateLicense env0 create_req" license0] a b e f
  have 1: "currentActivations license1 = int (length (deviceActivations license1))"
    and 2: "currentActivations license0 = 0 \<and> deviceActivations license0 = []"
    by blast+
  from counter_equals_length
         [of db0 key0 "[]" license0 license0 "ActivateLicense env0 activate_D1" license0] c(1) d
  have 3: "currentActivations license1 - currentActivations license0 =
     int (length (deviceActivations license1)) - int (length (deviceActivations license0))"
    by auto
  from counter_equals_length
         [of db1 key0 "[]" license1 license1 "ValidateLicense env0 validate_D1" license1] c(2) g
  have 4: "currentActivations license1_touched = currentActivations license1 \<and>
     length (deviceActivations license1_touched) = length (deviceActivations license1)"
    by auto
  from a b c d e f g 1 2 3 4 show ?thesis by blast
qed

text \<open>
  C10 as stated fails for requests in flight together: the license of the scenario has
  the counter 0 and no activation; the activations of D1 and D2 both read it before
  either saves; each save pushes its activation and sets the counter to 1. The license
  then has two activations, and the counter 1.
\<close>

theorem counter_behind_counterexample:
  "licenses db0 key0 = Some license0 \<and>
   currentActivations license0 = int (length (deviceActivations license0)) \<and>
   licenses (fst (interleave (env0, activate_D1) (env0, activate_D2) [First, Second, First, Second]
                    (db0, Started, Started))) key0 = Some license_both \<and>
   currentActivations license_both = 1 \<and>
   length (deviceActivations license_both) = 2 \<and>
   currentActivations license_both \<noteq> int (length (deviceActivations license_both))"
proof -
  have "licenses (fst (interleave (env0, activate_D1) (env0, activate_D2) [First, Second, First, Second]
                    (db0, Started, Started))) key0 = Some license_both"
    by (simp only: scenario_in_flight) simp
  then show ?thesis
    by (simp add: scenario_db0 license_both_def)
qed

end
